theory Spec2Isabelle
  imports Complex_Main "HOL-Library.Multiset"
begin

section \<open>Data model\<close>

text \<open>
  The repository is written in Go. Two of its files are embedded here:
  \<^verbatim>\<open>internal/pkg/epubimageprocessor/processor.go\<close> (the transform engine and the
  worker pool) and \<^verbatim>\<open>internal/pkg/epubtemplates/content.go\<close> (the manifest and the
  spine of the package document).

  Go's \<^verbatim>\<open>int\<close> is modelled by \<open>int\<close>: the values are page numbers and pixel
  sizes, far from the 64-bit range. Names follow the source; a name that HOL already uses
  gets a prime (\<open>Id'\<close>, \<open>Image'\<close>, \<open>Format'\<close>), a nested option such as
  \<^verbatim>\<open>Image.Crop.Enabled\<close> is written \<open>Crop_Enabled\<close>, and a constructor of another
  package keeps its package as a prefix (\<^verbatim>\<open>gift.Rotate90()\<close> is \<open>gift_Rotate90\<close>).
\<close>

subsection \<open>Rectangles and images of the standard library\<close>

record Rectangle =
  MinX :: int
  MinY :: int
  MaxX :: int
  MaxY :: int

definition Dx :: "Rectangle \<Rightarrow> int" where
  "Dx r = MaxX r - MinX r"

definition Dy :: "Rectangle \<Rightarrow> int" where
  "Dy r = MaxY r - MinY r"

text \<open>
  The dynamic type of an \<^verbatim>\<open>image.Image\<close>, as the type switch of \<^verbatim>\<open>createImage\<close>
  tells them apart. A paletted image carries its palette (a list of colour numbers).
\<close>

datatype ImageKind =
    KGray | KGray16 | KRGBA | KRGBA64 | KNRGBA | KNRGBA64 | KAlpha | KAlpha16 | KCMYK
  | KPaletted "nat list" | KOther

text \<open>An image is known by its bounds and its dynamic type; pixels are not modelled.\<close>

record GoImage =
  Bounds :: Rectangle
  Kind :: ImageKind

text \<open>
  A \<^verbatim>\<open>float64\<close> as far as the program computes one: the quotient of two integers.
  The rounding of a finite quotient to binary64 is not modelled.
\<close>

datatype f64 = NaN | PosInf | NegInf | Finite rat

definition f64_div :: "int \<Rightarrow> int \<Rightarrow> f64" where
  "f64_div a b =
     (if b = 0 then (if a = 0 then NaN else if 0 < a then PosInf else NegInf)
      else Finite (of_int a / of_int b))"

text \<open>Go's \<^verbatim>\<open>==\<close> on floats: a NaN is equal to nothing, itself included.\<close>

definition f64_eq :: "f64 \<Rightarrow> f64 \<Rightarrow> bool" where
  "f64_eq x y = (x \<noteq> NaN \<and> x = y)"

subsection \<open>Options (package epuboptions, fields read by the two files)\<close>

record Image_options =
  Format' :: string
  Manga :: bool
  AutoSplitDoublePage :: bool
  KeepDoublePageIfSplit :: bool
  KeepSplitDoublePageAspect :: bool
  HasCover :: bool
  NoBlankImage :: bool
  Quality :: int
  Crop_Enabled :: bool
  Crop_Left :: int
  Crop_Up :: int
  Crop_Right :: int
  Crop_Bottom :: int
  Crop_Limit :: int
  Crop_SkipIfLimitReached :: bool
  AutoRotate :: bool
  AutoContrast :: bool
  Contrast :: int
  Brightness :: int
  Resize :: bool
  View_Width :: int
  View_Height :: int
  View_PortraitOnly :: bool
  GrayScale :: bool
  GrayScaleMode :: int
  AppleBookCompatibility :: bool

record EPUBOptions =
  Dry :: bool
  Image' :: Image_options

subsection \<open>Pages (package epubimage) and tags\<close>

text \<open>
  \<^verbatim>\<open>epubimage.EPUBImage\<close>, with the fields the two files read or write. \<open>Raw\<close> is
  the pixel buffer (\<open>None\<close> is Go's \<^verbatim>\<open>nil\<close>), \<open>Error\<close> the error of the loader.
\<close>

record EPUBImage =
  Id' :: int
  Part :: int
  Raw :: "GoImage option"
  Width :: int
  Height :: int
  IsBlank :: bool
  DoublePage :: bool
  Path :: string
  Name :: string
  Format :: string
  OriginalAspectRatio :: f64
  Error :: "string option"
  Position :: string

text \<open>
  Go's zero value of the struct: what a composite literal leaves in the fields it does
  not name.
\<close>

definition zeroImage :: EPUBImage where
  "zeroImage =
     \<lparr>Id' = 0, Part = 0, Raw = None, Width = 0, Height = 0, IsBlank = False,
      DoublePage = False, Path = [], Name = [], Format = [],
      OriginalAspectRatio = Finite 0, Error = None, Position = []\<rparr>"

text \<open>
  Go's \<^verbatim>\<open>==\<close> on two such structs compares field by field, a float by \<open>f64_eq\<close>.
  The two interface fields hold pointers in Go; the model compares what they point to,
  so two pages equal in Go are equal here.
\<close>

definition EPUBImage_eq :: "EPUBImage \<Rightarrow> EPUBImage \<Rightarrow> bool" where
  "EPUBImage_eq a b =
     (Id' a = Id' b \<and> Part a = Part b \<and> Raw a = Raw b \<and> Width a = Width b \<and>
      Height a = Height b \<and> IsBlank a = IsBlank b \<and> DoublePage a = DoublePage b \<and>
      Path a = Path b \<and> Name a = Name b \<and> Format a = Format b \<and>
      f64_eq (OriginalAspectRatio a) (OriginalAspectRatio b) \<and> Error a = Error b \<and>
      Position a = Position b)"

text \<open>
  The methods of \<^verbatim>\<open>EPUBImage\<close> that build keys and paths are not in the two files:
  they are parameters of the model.
\<close>

record Methods =
  ImgKey :: "EPUBImage \<Rightarrow> string"
  ImgPath :: "EPUBImage \<Rightarrow> string"
  MediaType :: "EPUBImage \<Rightarrow> string"
  PageKey :: "EPUBImage \<Rightarrow> string"
  PagePath :: "EPUBImage \<Rightarrow> string"
  SpaceKey :: "EPUBImage \<Rightarrow> string"
  SpacePath :: "EPUBImage \<Rightarrow> string"

record tag =
  tag_name :: string
  tag_attrs :: "string \<rightharpoonup> string"
  tag_value :: string

text \<open>\<^verbatim>\<open>Content\<close>, with the fields the manifest and the spine read.\<close>

record Content =
  HasTitlePage :: bool
  ImageOptions :: Image_options
  Images :: "EPUBImage list"

datatype error =
    LoadError string
  | StorageError string
  | Fatal string string
  | errNoImagesFound
  | IndexOutOfRange

section \<open>The spine (content.go)\<close>

definition spread_center :: string where
  "spread_center = ''rendition:page-spread-center''"

definition spread_right :: string where
  "spread_right = ''rendition:page-spread-right''"

definition spread_left :: string where
  "spread_left = ''rendition:page-spread-left''"

definition layout_blank :: string where
  "layout_blank = '' layout-blank''"

text \<open>
  \<^verbatim>\<open>isOnTheRight\<close> is a local variable that the closures \<^verbatim>\<open>getSpread\<close> and
  \<^verbatim>\<open>getSpreadBlank\<close> update: here each takes its value and returns the new one beside
  the result.
\<close>

definition initialIsOnTheRight :: "Content \<Rightarrow> bool" where
  "initialIsOnTheRight o' =
     (let isOnTheRight = \<not> Manga (ImageOptions o') in
      if AppleBookCompatibility (ImageOptions o') then \<not> isOnTheRight else isOnTheRight)"

definition getSpread :: "Content \<Rightarrow> bool \<Rightarrow> bool \<Rightarrow> string \<times> bool" where
  "getSpread o' isOnTheRight isDoublePage =
     (let r = \<not> isOnTheRight in
      if isDoublePage then (spread_center, \<not> Manga (ImageOptions o'))
      else if r then (spread_right, r)
      else (spread_left, r))"

definition getSpreadBlank :: "Content \<Rightarrow> bool \<Rightarrow> string \<times> bool" where
  "getSpreadBlank o' isOnTheRight =
     (case getSpread o' isOnTheRight False of (p, r) \<Rightarrow> (p @ layout_blank, r))"

definition itemref :: "string \<Rightarrow> string \<Rightarrow> tag" where
  "itemref idref properties =
     \<lparr>tag_name = ''itemref'',
      tag_attrs = [''idref'' \<mapsto> idref, ''properties'' \<mapsto> properties],
      tag_value = []\<rparr>"

text \<open>
  One turn of the loop over \<^verbatim>\<open>o.Images\<close>: the tags appended to the spine, the page
  as written back into the slice, and the new \<^verbatim>\<open>isOnTheRight\<close>.
\<close>

definition needsSpacer :: "Content \<Rightarrow> bool \<Rightarrow> EPUBImage \<Rightarrow> bool" where
  "needsSpacer o' isOnTheRight img =
     ((DoublePage img \<or> Part img = 1) \<and> Manga (ImageOptions o') = isOnTheRight)"

definition spinePage ::
  "Methods \<Rightarrow> Content \<Rightarrow> bool \<Rightarrow> EPUBImage \<Rightarrow> tag list \<times> EPUBImage \<times> bool" where
  "spinePage K o' isOnTheRight img =
     (case (if needsSpacer o' isOnTheRight img
            then (case getSpreadBlank o' isOnTheRight of
                    (p, r) \<Rightarrow> ([itemref (SpaceKey K img) p], r))
            else ([], isOnTheRight)) of
        (spacer, r1) \<Rightarrow>
          (case getSpread o' r1 (DoublePage img) of
             (pos, r2) \<Rightarrow>
               (let img2 = img\<lparr>Position := pos\<rparr>
                in (spacer @ [itemref (PageKey K img2) (Position img2)], img2, r2))))"

fun spineLoop ::
  "Methods \<Rightarrow> Content \<Rightarrow> bool \<Rightarrow> EPUBImage list \<Rightarrow> tag list \<times> EPUBImage list \<times> bool" where
  "spineLoop K o' r [] = ([], [], r)"
| "spineLoop K o' r (img # imgs) =
     (case spinePage K o' r img of
        (ts, img2, r1) \<Rightarrow>
          (case spineLoop K o' r1 imgs of
             (ts2, imgs2, r2) \<Rightarrow> (ts @ ts2, img2 # imgs2, r2)))"

definition spineTitle :: "Content \<Rightarrow> bool \<Rightarrow> tag list \<times> bool" where
  "spineTitle o' r =
     (if HasTitlePage o' then
        (if \<not> AppleBookCompatibility (ImageOptions o') then
           (case getSpreadBlank o' r of
              (p1, r1) \<Rightarrow>
                (case getSpread o' r1 False of
                   (p2, r2) \<Rightarrow> ([itemref ''space_title'' p1, itemref ''page_title'' p2], r2)))
         else
           (case getSpread o' r True of (p, r1) \<Rightarrow> ([itemref ''page_title'' p], r1)))
      else ([], r))"

text \<open>
  \<^verbatim>\<open>getSpineAuto\<close> returns the spine; it also writes every page, with its position,
  back into \<^verbatim>\<open>o.Images\<close>, which shares its array with the caller's slice: the model
  returns the pages beside the spine. The trailing spacer reads
  \<^verbatim>\<open>o.Images[len(o.Images)-1]\<close>, which panics on an empty slice.
\<close>

definition getSpineAuto :: "Methods \<Rightarrow> Content \<Rightarrow> error + (tag list \<times> EPUBImage list)" where
  "getSpineAuto K o' =
     (case spineTitle o' (initialIsOnTheRight o') of
        (title, r1) \<Rightarrow>
          (case spineLoop K o' r1 (Images o') of
             (ts, imgs, r2) \<Rightarrow>
               (if Manga (ImageOptions o') = r2 then
                  (if imgs = [] then Inl IndexOutOfRange
                   else Inr (title @ ts @
                          [itemref (SpaceKey K (last imgs)) (fst (getSpread o' r2 False))],
                        imgs))
                else Inr (title @ ts, imgs))))"

text \<open>
  The value of \<^verbatim>\<open>isOnTheRight\<close> in \<^verbatim>\<open>getSpineAuto\<close> when the loop has gone through
  the first \<open>n\<close> pages (\<open>n = 0\<close>: after the title page, before the first page).
\<close>

definition stateAfter :: "Methods \<Rightarrow> Content \<Rightarrow> nat \<Rightarrow> bool" where
  "stateAfter K o' n =
     snd (snd (spineLoop K o' (snd (spineTitle o' (initialIsOnTheRight o')))
                 (take n (Images o'))))"

definition getSpinePortrait :: "Methods \<Rightarrow> Content \<Rightarrow> tag list" where
  "getSpinePortrait K o' =
     (if HasTitlePage o'
      then [\<lparr>tag_name = ''itemref'', tag_attrs = [''idref'' \<mapsto> ''page_title''], tag_value = []\<rparr>]
      else []) @
     map (\<lambda>img. \<lparr>tag_name = ''itemref'', tag_attrs = [''idref'' \<mapsto> PageKey K img],
                 tag_value = []\<rparr>) (Images o')"

section \<open>The manifest (content.go)\<close>

definition item :: "string \<Rightarrow> string \<Rightarrow> string \<Rightarrow> tag" where
  "item ident href mediaType =
     \<lparr>tag_name = ''item'',
      tag_attrs = [''id'' \<mapsto> ident, ''href'' \<mapsto> href, ''media-type'' \<mapsto> mediaType],
      tag_value = []\<rparr>"

definition fixedItems :: "tag list" where
  "fixedItems =
     [\<lparr>tag_name = ''item'',
       tag_attrs = [''id'' \<mapsto> ''toc'', ''href'' \<mapsto> ''toc.xhtml'', ''properties'' \<mapsto> ''nav'',
                    ''media-type'' \<mapsto> ''application/xhtml+xml''],
       tag_value = []\<rparr>,
      item ''css'' ''Text/style.css'' ''text/css'',
      item ''page_cover'' ''Text/cover.xhtml'' ''application/xhtml+xml'',
      item ''img_cover'' ''Images/cover.jpeg'' ''image/jpeg'']"

definition titleItems :: "Content \<Rightarrow> tag list" where
  "titleItems o' =
     (if HasTitlePage o' then
        [item ''page_title'' ''Text/title.xhtml'' ''application/xhtml+xml'',
         item ''img_title'' ''Images/title.jpeg'' ''image/jpeg''] @
        (if \<not> View_PortraitOnly (ImageOptions o')
         then [item ''space_title'' ''Text/space_title.xhtml'' ''application/xhtml+xml'']
         else [])
      else [])"

text \<open>The second argument of \<^verbatim>\<open>addTag\<close>, for the page \<open>img\<close> of the loop.\<close>

definition withSpace :: "Content \<Rightarrow> EPUBImage \<Rightarrow> EPUBImage \<Rightarrow> bool" where
  "withSpace o' lastImage img =
     (\<not> View_PortraitOnly (ImageOptions o') \<and>
      (DoublePage img \<or>
       (\<not> KeepDoublePageIfSplit (ImageOptions o') \<and> Part img = 1) \<or>
       (Part img = 0 \<and> EPUBImage_eq img lastImage)))"

text \<open>
  The three slices that \<^verbatim>\<open>addTag\<close> fills, one call per page and in the order of the
  pages: a page adds to \<^verbatim>\<open>spaceTags\<close> only when \<^verbatim>\<open>withSpace\<close> is true.
\<close>

definition imageTags :: "Methods \<Rightarrow> Content \<Rightarrow> tag list" where
  "imageTags K o' = map (\<lambda>img. item (ImgKey K img) (ImgPath K img) (MediaType K img)) (Images o')"

definition pageTags :: "Methods \<Rightarrow> Content \<Rightarrow> tag list" where
  "pageTags K o' =
     map (\<lambda>img. item (PageKey K img) (PagePath K img) ''application/xhtml+xml'') (Images o')"

definition spacePages :: "Content \<Rightarrow> EPUBImage list" where
  "spacePages o' = filter (withSpace o' (last (Images o'))) (Images o')"

definition spaceTags :: "Methods \<Rightarrow> Content \<Rightarrow> tag list" where
  "spaceTags K o' =
     map (\<lambda>img. item (SpaceKey K img) (SpacePath K img) ''application/xhtml+xml'')
       (spacePages o')"

text \<open>\<^verbatim>\<open>o.Images[len(o.Images)-1]\<close> panics on an empty slice.\<close>

definition getManifest :: "Methods \<Rightarrow> Content \<Rightarrow> error + tag list" where
  "getManifest K o' =
     (if Images o' = [] then Inl IndexOutOfRange
      else Inr (fixedItems @ titleItems o' @ imageTags K o' @ pageTags K o' @ spaceTags K o'))"

section \<open>The transform engine (processor.go)\<close>

subsection \<open>Single precision arithmetic\<close>

text \<open>
  The two colour functions compute on \<^verbatim>\<open>float32\<close>. A finite \<^verbatim>\<open>float32\<close> is a
  rational number, and every operation returns the exact result rounded to the nearest
  value with a 24-bit significand, ties to the even one (IEEE 754 binary32). \<open>f32\<close> is
  that rounding; the exponent is searched over the whole range of the format. Overflow to
  infinity is not modelled: colour values are far below \<open>2 ^ 128\<close>.
\<close>

fun expo :: "nat \<Rightarrow> rat \<Rightarrow> int" where
  "expo n x =
     (if n = 0 \<or> (1 \<le> x \<and> x < 2) then 0
      else if x < 1 then expo (n - 1) (2 * x) - 1
      else expo (n - 1) (x / 2) + 1)"

declare expo.simps [simp del]

definition pow2 :: "int \<Rightarrow> rat" where
  "pow2 k = (if 0 \<le> k then 2 ^ nat k else 1 / 2 ^ nat (- k))"

definition round_half_even :: "rat \<Rightarrow> int" where
  "round_half_even x =
     (let f = \<lfloor>x\<rfloor>; d = x - of_int f
      in if d < 1 / 2 then f else if 1 / 2 < d then f + 1 else if even f then f else f + 1)"

definition f32 :: "rat \<Rightarrow> rat" where
  "f32 x =
     (if x = 0 then 0
      else (let ulp = pow2 (max (expo 300 \<bar>x\<bar>) (- 126) - 23)
            in of_int (round_half_even (x / ulp)) * ulp))"

text \<open>
  The two closures given to \<^verbatim>\<open>gift.ColorFunc\<close>. A constant of the source is first
  rounded to \<^verbatim>\<open>float32\<close>; sums and products associate to the left. (Go allows a
  compiler to fuse \<^verbatim>\<open>x*y + z\<close> into one rounding; the model rounds each operation.)
\<close>

datatype ColorFn = Average | Luminance

fun colorFn :: "ColorFn \<Rightarrow> rat \<times> rat \<times> rat \<times> rat \<Rightarrow> rat \<times> rat \<times> rat \<times> rat" where
  "colorFn Average (r0, g0, b0, a0) =
     (let y = f32 (f32 (f32 (r0 + g0) + b0) / 3) in (y, y, y, a0))"
| "colorFn Luminance (r0, g0, b0, a0) =
     (let y = f32 (f32 (f32 (f32 (2126 / 10000) * r0) + f32 (f32 (7152 / 10000) * g0)) +
                   f32 (f32 (722 / 10000) * b0))
      in (y, y, y, a0))"

subsection \<open>Filters\<close>

text \<open>
  The filters that \<^verbatim>\<open>transformImage\<close> adds to the chain, by their constructors.
  \<^verbatim>\<open>epubimagefilters\<close> (prefix \<open>filters_\<close>) is a package of the repository that is
  not among the files; \<^verbatim>\<open>gift\<close> is a library. What the model needs of a filter is its
  \<^verbatim>\<open>Bounds\<close> method: it is a parameter \<open>fb\<close> of every definition below.
\<close>

datatype Filter =
    filters_CropSplitDoublePage bool
  | filters_AutoCrop GoImage Rectangle int int int int int bool
  | gift_Rotate90
  | filters_AutoContrast
  | gift_Contrast int
  | gift_Brightness int
  | gift_ResizeToFit int int
  | gift_ColorFunc ColorFn
  | gift_Grayscale
  | filters_Pixel

type_synonym FilterBounds = "Filter \<Rightarrow> Rectangle \<Rightarrow> Rectangle"

text \<open>\<^verbatim>\<open>g.Bounds\<close>: the bounds after every filter of the chain, first to last.\<close>

definition gBounds :: "FilterBounds \<Rightarrow> Filter list \<Rightarrow> Rectangle \<Rightarrow> Rectangle" where
  "gBounds fb g srcBounds = foldl (\<lambda>b f. fb f b) srcBounds g"

text \<open>The loader's task (\<^verbatim>\<open>loader.go\<close> is not among the files).\<close>

record task =
  task_Id :: int
  task_Image :: GoImage
  task_Path :: string
  task_Name :: string
  task_Error :: "string option"

definition createImage :: "EPUBOptions \<Rightarrow> GoImage \<Rightarrow> Rectangle \<Rightarrow> GoImage" where
  "createImage e src r =
     (if GrayScale (Image' e) then \<lparr>Bounds = r, Kind = KGray\<rparr>
      else (case Kind src of
              KGray \<Rightarrow> \<lparr>Bounds = r, Kind = KGray\<rparr>
            | KGray16 \<Rightarrow> \<lparr>Bounds = r, Kind = KGray16\<rparr>
            | KRGBA \<Rightarrow> \<lparr>Bounds = r, Kind = KRGBA\<rparr>
            | KRGBA64 \<Rightarrow> \<lparr>Bounds = r, Kind = KRGBA64\<rparr>
            | KNRGBA \<Rightarrow> \<lparr>Bounds = r, Kind = KNRGBA\<rparr>
            | KNRGBA64 \<Rightarrow> \<lparr>Bounds = r, Kind = KNRGBA64\<rparr>
            | KAlpha \<Rightarrow> \<lparr>Bounds = r, Kind = KAlpha\<rparr>
            | KAlpha16 \<Rightarrow> \<lparr>Bounds = r, Kind = KAlpha16\<rparr>
            | KCMYK \<Rightarrow> \<lparr>Bounds = r, Kind = KCMYK\<rparr>
            | KPaletted palette \<Rightarrow> \<lparr>Bounds = r, Kind = KPaletted palette\<rparr>
            | KOther \<Rightarrow> \<lparr>Bounds = r, Kind = KNRGBA64\<rparr>))"

text \<open>
  The chain when \<^verbatim>\<open>transformImage\<close> computes \<^verbatim>\<open>dstBounds\<close> (lines 178 to 215 of
  the source): the split before the crop, the crop, the split after the crop.
\<close>

definition autoCropFilter :: "EPUBOptions \<Rightarrow> GoImage \<Rightarrow> Rectangle \<Rightarrow> Filter" where
  "autoCropFilter e src b =
     filters_AutoCrop src b (Crop_Left (Image' e)) (Crop_Up (Image' e)) (Crop_Right (Image' e))
       (Crop_Bottom (Image' e)) (Crop_Limit (Image' e)) (Crop_SkipIfLimitReached (Image' e))"

definition cropChain :: "FilterBounds \<Rightarrow> EPUBOptions \<Rightarrow> task \<Rightarrow> int \<Rightarrow> bool \<Rightarrow> Filter list" where
  "cropChain fb e input part right =
     (let src = task_Image input;
          srcBounds = Bounds src;
          g1 = (if 0 < part \<and> \<not> KeepSplitDoublePageAspect (Image' e)
                then [filters_CropSplitDoublePage right] else []);
          g2 = (if Crop_Enabled (Image' e) \<or> NoBlankImage (Image' e) then
                  (let f = autoCropFilter e src (gBounds fb g1 (Bounds src));
                       size = fb f srcBounds;
                       isBlank = (Dx size = 0 \<and> Dy size = 0)
                   in if Crop_Enabled (Image' e) \<or> (NoBlankImage (Image' e) \<and> isBlank)
                      then g1 @ [f] else g1)
                else g1)
      in if 0 < part \<and> KeepSplitDoublePageAspect (Image' e)
         then g2 @ [filters_CropSplitDoublePage right] else g2)"

definition isDoublePage :: "FilterBounds \<Rightarrow> EPUBOptions \<Rightarrow> task \<Rightarrow> int \<Rightarrow> bool \<Rightarrow> bool" where
  "isDoublePage fb e input part right =
     (let srcBounds = Bounds (task_Image input);
          dstBounds = gBounds fb (cropChain fb e input part right) (Bounds (task_Image input))
      in part = 0 \<and> Dy srcBounds < Dx srcBounds \<and> Dy dstBounds < Dx dstBounds)"

definition grayScaleFilter :: "EPUBOptions \<Rightarrow> Filter" where
  "grayScaleFilter e =
     (if GrayScaleMode (Image' e) = 1 then gift_ColorFunc Average
      else if GrayScaleMode (Image' e) = 2 then gift_ColorFunc Luminance
      else gift_Grayscale)"

text \<open>The filters added after the detection (lines 222 to 261), in the order of the source.\<close>

definition toneChain :: "EPUBOptions \<Rightarrow> bool \<Rightarrow> Filter list" where
  "toneChain e double =
     (if AutoRotate (Image' e) \<and> double then [gift_Rotate90] else []) @
     (if AutoContrast (Image' e) then [filters_AutoContrast] else []) @
     (if Contrast (Image' e) \<noteq> 0 then [gift_Contrast (Contrast (Image' e))] else []) @
     (if Brightness (Image' e) \<noteq> 0 then [gift_Brightness (Brightness (Image' e))] else []) @
     (if Resize (Image' e)
      then [gift_ResizeToFit (View_Width (Image' e)) (View_Height (Image' e))] else []) @
     (if GrayScale (Image' e) then [grayScaleFilter e] else []) @
     [filters_Pixel]"

definition transformImage :: "FilterBounds \<Rightarrow> EPUBOptions \<Rightarrow> task \<Rightarrow> int \<Rightarrow> bool \<Rightarrow> EPUBImage" where
  "transformImage fb e input part right =
     (let src = task_Image input;
          double = isDoublePage fb e input part right;
          g = cropChain fb e input part right @ toneChain e double;
          dst = createImage e src (gBounds fb g (Bounds src))
      in \<lparr>Id' = task_Id input,
          Part = part,
          Raw = Some dst,
          Width = Dx (Bounds dst),
          Height = Dy (Bounds dst),
          IsBlank = (Dx (Bounds dst) = 1 \<and> Dy (Bounds dst) = 1),
          DoublePage = double,
          Path = task_Path input,
          Name = task_Name input,
          Format = Format' (Image' e),
          OriginalAspectRatio = f64_div (Dy (Bounds src)) (Dx (Bounds src)),
          Error = task_Error input,
          Position = []\<rparr>)"

section \<open>The worker pool and the assembler (processor.go, Load)\<close>

text \<open>
  What \<^verbatim>\<open>Load\<close> takes from outside the two files:
  \<^item> \<open>loadResult\<close>: what \<^verbatim>\<open>e.load()\<close> returns, an error or the number of images and
    the tasks that the input channel delivers, in order;
  \<^item> \<open>newStorage\<close>: the error of \<^verbatim>\<open>epubzip.NewStorageImageWriter\<close>, if any;
  \<^item> \<open>storageAdd\<close>: the error of \<^verbatim>\<open>imgStorage.Add\<close> for a page, if any;
  \<^item> \<open>workers\<close>: the value of \<^verbatim>\<open>e.WorkersRatio(wr)\<close>, the number of goroutines;
  \<^item> \<open>filterBounds\<close>: the \<^verbatim>\<open>Bounds\<close> method of the filters;
  \<^item> \<open>arrival\<close>: the order in which the pages that the workers send reach the receiving
    loop, given what each task sends. The goroutines run concurrently, so the order is
    the scheduler's; a theorem that depends on it assumes no more than that every page
    sent arrives once.
\<close>

record Env =
  loadResult :: "error + (nat \<times> task list)"
  newStorage :: "string option"
  storageAdd :: "EPUBImage \<Rightarrow> string option"
  workers :: nat
  filterBounds :: FilterBounds
  arrival :: "EPUBImage list list \<Rightarrow> EPUBImage list"

text \<open>
  The condition of line 87 (its negation guards the block that stores and sends the
  unsplit page) and the condition of line 101 (the \<^verbatim>\<open>continue\<close> that skips the split).
\<close>

definition withheld :: "EPUBOptions \<Rightarrow> task \<Rightarrow> EPUBImage \<Rightarrow> bool" where
  "withheld e input img =
     (DoublePage img \<and> 0 < task_Id input \<and>
      AutoSplitDoublePage (Image' e) \<and> \<not> KeepDoublePageIfSplit (Image' e))"

definition noSplit :: "EPUBOptions \<Rightarrow> EPUBImage \<Rightarrow> bool" where
  "noSplit e img =
     (\<not> AutoSplitDoublePage (Image' e) \<or> \<not> DoublePage img \<or>
      (HasCover (Image' e) \<and> Id' img = 0))"

text \<open>
  A worker's result for one task: the pages it stored, and either the pages it sent on
  the output channel, in order, or the fatal error (\<^verbatim>\<open>utils.Fatalf\<close> ends the process)
  of the first \<^verbatim>\<open>Add\<close> that failed.
\<close>

definition sendUnsplit ::
  "Env \<Rightarrow> EPUBOptions \<Rightarrow> task \<Rightarrow> EPUBImage \<Rightarrow> EPUBImage list \<times> (error + EPUBImage list)" where
  "sendUnsplit env e input img =
     (if \<not> withheld e input img then
        (case storageAdd env img of
           Some err \<Rightarrow> ([], Inl (Fatal (task_Name input) err))
         | None \<Rightarrow> ([img], Inr [if 0 < Id' img then img\<lparr>Raw := None\<rparr> else img]))
      else ([], Inr []))"

fun sendSplit ::
  "Env \<Rightarrow> EPUBOptions \<Rightarrow> task \<Rightarrow> (int \<times> bool) list \<Rightarrow>
     EPUBImage list \<times> (error + EPUBImage list)" where
  "sendSplit env e input [] = ([], Inr [])"
| "sendSplit env e input ((i, b) # rest) =
     (let img = transformImage (filterBounds env) e input (i + 1) b in
      case storageAdd env img of
        Some err \<Rightarrow> ([], Inl (Fatal (task_Name input) err))
      | None \<Rightarrow>
          (case sendSplit env e input rest of
             (st, Inl err) \<Rightarrow> (img # st, Inl err)
           | (st, Inr out) \<Rightarrow> (img # st, Inr (img\<lparr>Raw := None\<rparr> # out))))"

definition processTask ::
  "Env \<Rightarrow> EPUBOptions \<Rightarrow> task \<Rightarrow> EPUBImage list \<times> (error + EPUBImage list)" where
  "processTask env e input =
     (let img = transformImage (filterBounds env) e input 0 (Manga (Image' e)) in
      case sendUnsplit env e input img of
        (st, Inl err) \<Rightarrow> (st, Inl err)
      | (st, Inr out) \<Rightarrow>
          (if noSplit e img then (st, Inr out)
           else (case sendSplit env e input [(0, Manga (Image' e)), (1, \<not> Manga (Image' e))] of
                   (st2, Inl err) \<Rightarrow> (st @ st2, Inl err)
                 | (st2, Inr out2) \<Rightarrow> (st @ st2, Inr (out @ out2)))))"

text \<open>
  The workers together: what every task sends, task by task, or the first fatal error in
  the order of the tasks.
\<close>

fun runWorkers ::
  "Env \<Rightarrow> EPUBOptions \<Rightarrow> task list \<Rightarrow> EPUBImage list \<times> (error + EPUBImage list list)" where
  "runWorkers env e [] = ([], Inr [])"
| "runWorkers env e (input # inputs) =
     (case processTask env e input of
        (st, Inl err) \<Rightarrow> (st, Inl err)
      | (st, Inr out) \<Rightarrow>
          (case runWorkers env e inputs of
             (st2, Inl err) \<Rightarrow> (st @ st2, Inl err)
           | (st2, Inr outs) \<Rightarrow> (st @ st2, Inr (out # outs))))"

text \<open>
  The receiving loop of lines 126 to 134: the progress bar's count and the list
  \<^verbatim>\<open>images\<close>, after the pages of \<open>out\<close> in their order of arrival.
\<close>

fun receive :: "EPUBOptions \<Rightarrow> nat \<times> EPUBImage list \<Rightarrow> EPUBImage list \<Rightarrow> nat \<times> EPUBImage list" where
  "receive e (bar, images) [] = (bar, images)"
| "receive e (bar, images) (img # out) =
     (let bar2 = (if Part img = 0 then bar + 1 else bar) in
      if NoBlankImage (Image' e) \<and> IsBlank img then receive e (bar2, images) out
      else receive e (bar2, images @ [img]) out)"

text \<open>
  What a call of \<^verbatim>\<open>Load\<close> leaves: its two results as one value (the error, or the
  list), the count of the progress bar when it is closed, and the pages given to the
  storage. When the process ends on a fatal error the count is left at 0.
\<close>

record Outcome =
  result :: "error + EPUBImage list"
  barCount :: nat
  stored :: "EPUBImage list"

definition dryImage :: "EPUBOptions \<Rightarrow> task \<Rightarrow> EPUBImage" where
  "dryImage e img =
     zeroImage\<lparr>Id' := task_Id img, Path := task_Path img, Name := task_Name img,
               Format := Format' (Image' e)\<rparr>"

definition Load :: "Env \<Rightarrow> EPUBOptions \<Rightarrow> Outcome" where
  "Load env e =
     (case loadResult env of
        Inl err \<Rightarrow> \<lparr>result = Inl err, barCount = 0, stored = []\<rparr>
      | Inr (imageCount, imageInput) \<Rightarrow>
          (if Dry e then
             \<lparr>result = Inr (map (dryImage e) imageInput), barCount = 0, stored = []\<rparr>
           else
             (case newStorage env of
                Some err \<Rightarrow> \<lparr>result = Inl (StorageError err), barCount = 0, stored = []\<rparr>
              | None \<Rightarrow>
                  (case runWorkers env e (if workers env = 0 then [] else imageInput) of
                     (st, Inl err) \<Rightarrow> \<lparr>result = Inl err, barCount = 0, stored = st\<rparr>
                   | (st, Inr outs) \<Rightarrow>
                       (case receive e (0, []) (arrival env outs) of
                          (bar, images) \<Rightarrow>
                            \<lparr>result = (if length images = 0 then Inl errNoImagesFound
                                       else Inr images),
                             barCount = bar, stored = st\<rparr>)))))"

section \<open>Values for the examples\<close>

text \<open>
  The theorems below hold for every choice of the parameters. To evaluate the model on
  an input, the examples need one choice: keys built from the name of the page, and
  bounds where a split halves the width, a crop removes the configured margins (in
  pixels), a rotation swaps the sides, and the last filter turns an empty image into
  one pixel.
\<close>

definition demoKeys :: Methods where
  "demoKeys =
     \<lparr>ImgKey = (\<lambda>img. ''img_'' @ Name img),
      ImgPath = (\<lambda>img. ''Images/'' @ Name img),
      MediaType = (\<lambda>img. ''image/'' @ Format img),
      PageKey = (\<lambda>img. ''page_'' @ Name img),
      PagePath = (\<lambda>img. ''Text/'' @ Name img),
      SpaceKey = (\<lambda>img. ''space_'' @ Name img),
      SpacePath = (\<lambda>img. ''Text/space_'' @ Name img)\<rparr>"

definition Rect :: "int \<Rightarrow> int \<Rightarrow> int \<Rightarrow> int \<Rightarrow> Rectangle" where
  "Rect x0 y0 x1 y1 = \<lparr>MinX = x0, MinY = y0, MaxX = x1, MaxY = y1\<rparr>"

fun demoBounds :: FilterBounds where
  "demoBounds (filters_CropSplitDoublePage right) b = Rect 0 0 (Dx b div 2) (Dy b)"
| "demoBounds (filters_AutoCrop src b0 left up right bottom limit skip) b =
     Rect 0 0 (max 0 (Dx b0 - left - right)) (max 0 (Dy b0 - up - bottom))"
| "demoBounds gift_Rotate90 b = Rect 0 0 (Dy b) (Dx b)"
| "demoBounds filters_Pixel b = (if Dx b = 0 \<or> Dy b = 0 then Rect 0 0 1 1 else Rect 0 0 (Dx b) (Dy b))"
| "demoBounds f b = Rect 0 0 (Dx b) (Dy b)"

definition demoImage :: Image_options where
  "demoImage =
     \<lparr>Format' = ''jpeg'', Manga = False, AutoSplitDoublePage = True,
      KeepDoublePageIfSplit = False, KeepSplitDoublePageAspect = False, HasCover = True,
      NoBlankImage = True, Quality = 85, Crop_Enabled = False, Crop_Left = 0, Crop_Up = 0,
      Crop_Right = 0, Crop_Bottom = 0, Crop_Limit = 0, Crop_SkipIfLimitReached = False,
      AutoRotate = False, AutoContrast = False, Contrast = 0, Brightness = 0,
      Resize = False, View_Width = 1072, View_Height = 1448, View_PortraitOnly = False,
      GrayScale = False, GrayScaleMode = 0, AppleBookCompatibility = False\<rparr>"

definition demoTask :: "int \<Rightarrow> string \<Rightarrow> int \<Rightarrow> int \<Rightarrow> task" where
  "demoTask n nm w h =
     \<lparr>task_Id = n, task_Image = \<lparr>Bounds = Rect 0 0 w h, Kind = KRGBA\<rparr>, task_Path = [],
      task_Name = nm, task_Error = None\<rparr>"

definition demoEnv :: "task list \<Rightarrow> Env" where
  "demoEnv inputs =
     \<lparr>loadResult = Inr (length inputs, inputs), newStorage = None,
      storageAdd = (\<lambda>img. None), workers = 1, filterBounds = demoBounds,
      arrival = concat\<rparr>"

definition demoPage :: "int \<Rightarrow> string \<Rightarrow> int \<Rightarrow> bool \<Rightarrow> EPUBImage" where
  "demoPage n nm p d = zeroImage\<lparr>Id' := n, Name := nm, Part := p, DoublePage := d\<rparr>"

definition demoContent :: "bool \<Rightarrow> EPUBImage list \<Rightarrow> Content" where
  "demoContent m imgs =
     \<lparr>HasTitlePage = False, ImageOptions = demoImage\<lparr>Manga := m\<rparr>, Images = imgs\<rparr>"

text \<open>
  A book read left to right: a single page, a double page, and the two halves of a
  split double page. And five single pages of a manga.
\<close>

definition demoBook :: Content where
  "demoBook =
     demoContent False
       [demoPage 1 ''a'' 0 False, demoPage 2 ''b'' 0 True,
        demoPage 3 ''c'' 1 False, demoPage 3 ''d'' 2 False]"

definition demoManga :: Content where
  "demoManga =
     demoContent True
       [demoPage 1 ''a'' 0 False, demoPage 2 ''b'' 0 False, demoPage 3 ''c'' 0 False,
        demoPage 4 ''d'' 0 False, demoPage 5 ''e'' 0 False]"

text \<open>An attribute of a tag, to read a list of tags attribute by attribute.\<close>

definition attr :: "string \<Rightarrow> tag \<Rightarrow> string option" where
  "attr k t = tag_attrs t k"

definition demoOptions :: EPUBOptions where
  "demoOptions = \<lparr>Dry = False, Image' = demoImage\<rparr>"

text \<open>
  Options that crop 600 pixels on the left and on the right; a cover in portrait shape
  and a page in landscape shape, 2000 by 1000 pixels.
\<close>

definition demoCrop :: EPUBOptions where
  "demoCrop =
     \<lparr>Dry = False,
      Image' = demoImage\<lparr>Crop_Enabled := True, Crop_Left := 600, Crop_Right := 600\<rparr>\<rparr>"

definition demoInputs :: "task list" where
  "demoInputs = [demoTask 0 ''cover'' 1000 1500, demoTask 1 ''wide'' 2000 1000]"

text \<open>The identity and the shape of a page, to read a list of pages.\<close>

definition idPart :: "EPUBImage \<Rightarrow> int \<times> int" where
  "idPart img = (Id' img, Part img)"

text \<open>
  Options that remove blank pages, with margins of 50 pixels on every side: under
  \<open>demoBounds\<close> a page of 100 by 100 pixels is blank. And the options of a dry run.
\<close>

definition demoBlank :: EPUBOptions where
  "demoBlank =
     \<lparr>Dry = False,
      Image' = demoImage\<lparr>Crop_Left := 50, Crop_Up := 50, Crop_Right := 50, Crop_Bottom := 50\<rparr>\<rparr>"

definition demoDry :: EPUBOptions where
  "demoDry = \<lparr>Dry = True, Image' = demoImage\<rparr>"

section \<open>Properties of the spine\<close>

lemma getSpread_double: "getSpread o' r True = (spread_center, \<not> Manga (ImageOptions o'))"
  by (simp add: getSpread_def)

lemma getSpread_single: "getSpread o' r False = (if r then spread_left else spread_right, \<not> r)"
  by (simp add: getSpread_def)

lemma getSpreadBlank_eq:
  "getSpreadBlank o' r = ((if r then spread_left else spread_right) @ layout_blank, \<not> r)"
  by (simp add: getSpreadBlank_def getSpread_single)

lemma spinePage_image:
  "fst (snd (spinePage K o' r img)) =
     img\<lparr>Position := fst (getSpread o' (if needsSpacer o' r img then \<not> r else r) (DoublePage img))\<rparr>"
  by (simp add: spinePage_def getSpreadBlank_eq Let_def split: prod.splits)

lemma spinePage_state:
  "snd (snd (spinePage K o' r img)) =
     snd (getSpread o' (if needsSpacer o' r img then \<not> r else r) (DoublePage img))"
  by (simp add: spinePage_def getSpreadBlank_eq Let_def split: prod.splits)

lemma spinePage_tags:
  "fst (spinePage K o' r img) =
     (if needsSpacer o' r img
      then [itemref (SpaceKey K img) ((if r then spread_left else spread_right) @ layout_blank)]
      else []) @
     [itemref (PageKey K (fst (snd (spinePage K o' r img))))
        (Position (fst (snd (spinePage K o' r img))))]"
  by (simp add: spinePage_def getSpreadBlank_eq Let_def split: prod.splits)

lemma spinePage_double:
  "DoublePage img \<Longrightarrow>
     Position (fst (snd (spinePage K o' r img))) = spread_center \<and>
     snd (snd (spinePage K o' r img)) = (\<not> Manga (ImageOptions o'))"
  by (simp add: spinePage_image spinePage_state getSpread_double)

lemma spinePage_first_half:
  "\<not> DoublePage img \<Longrightarrow> Part img = 1 \<Longrightarrow>
     Position (fst (snd (spinePage K o' r img))) =
       (if Manga (ImageOptions o') then spread_right else spread_left) \<and>
     snd (snd (spinePage K o' r img)) = Manga (ImageOptions o')"
  by (auto simp add: spinePage_image spinePage_state getSpread_single needsSpacer_def)

lemma spinePage_single:
  "\<not> DoublePage img \<Longrightarrow> Part img \<noteq> 1 \<Longrightarrow>
     Position (fst (snd (spinePage K o' r img))) = (if r then spread_left else spread_right) \<and>
     snd (snd (spinePage K o' r img)) = (\<not> r)"
  by (auto simp add: spinePage_image spinePage_state getSpread_single needsSpacer_def)

lemma spineLoop_Cons:
  "fst (snd (spineLoop K o' r (img # imgs))) =
     fst (snd (spinePage K o' r img)) #
     fst (snd (spineLoop K o' (snd (snd (spinePage K o' r img))) imgs))"
  by (simp split: prod.splits)

lemma spineLoop_length: "length (fst (snd (spineLoop K o' r imgs))) = length imgs"
  by (induction imgs arbitrary: r) (simp_all add: spineLoop_Cons del: spineLoop.simps(2))

text \<open>The loop over a list in two pieces is the loop over the first, then over the second.\<close>

lemma spineLoop_append:
  "spineLoop K o' r (xs @ ys) =
     (case spineLoop K o' r xs of
        (t1, i1, r1) \<Rightarrow>
          (case spineLoop K o' r1 ys of (t2, i2, r2) \<Rightarrow> (t1 @ t2, i1 @ i2, r2)))"
  by (induction xs arbitrary: r) (simp_all split: prod.splits)

lemma spineLoop_snoc_image:
  "fst (snd (spineLoop K o' r (xs @ [x]))) =
     fst (snd (spineLoop K o' r xs)) @
     [fst (snd (spinePage K o' (snd (snd (spineLoop K o' r xs))) x))]"
  by (simp add: spineLoop_append split: prod.splits)

lemma spineLoop_snoc_state:
  "snd (snd (spineLoop K o' r (xs @ [x]))) =
     snd (snd (spinePage K o' (snd (snd (spineLoop K o' r xs))) x))"
  by (simp add: spineLoop_append split: prod.splits)

lemma spineLoop_take_image:
  "i < length imgs \<Longrightarrow>
     fst (snd (spineLoop K o' r imgs)) ! i =
       fst (snd (spinePage K o' (snd (snd (spineLoop K o' r (take i imgs)))) (imgs ! i)))"
proof -
  assume i: "i < length imgs"
  then have split: "imgs = (take i imgs @ [imgs ! i]) @ drop (Suc i) imgs"
    by (simp add: Cons_nth_drop_Suc)
  have "fst (snd (spineLoop K o' r imgs)) =
          fst (snd (spineLoop K o' r (take i imgs @ [imgs ! i]))) @
          fst (snd (spineLoop K o' (snd (snd (spineLoop K o' r (take i imgs @ [imgs ! i]))))
                 (drop (Suc i) imgs)))"
    by (subst split, subst spineLoop_append) (simp split: prod.splits)
  moreover have "length (fst (snd (spineLoop K o' r (take i imgs)))) = i"
    using i by (simp add: spineLoop_length)
  ultimately show ?thesis
    by (simp add: spineLoop_snoc_image nth_append)
qed

lemma spineLoop_take_state:
  "i < length imgs \<Longrightarrow>
     snd (snd (spineLoop K o' r (take (Suc i) imgs))) =
       snd (snd (spinePage K o' (snd (snd (spineLoop K o' r (take i imgs)))) (imgs ! i)))"
  by (simp add: take_Suc_conv_app_nth spineLoop_snoc_state)

lemma getSpineAuto_images:
  "getSpineAuto K o' = Inr (sp, imgs2) \<Longrightarrow>
     imgs2 = fst (snd (spineLoop K o' (snd (spineTitle o' (initialIsOnTheRight o'))) (Images o')))"
  by (auto simp add: getSpineAuto_def split: prod.splits if_splits)

lemma getSpineAuto_returns:
  "Images o' \<noteq> [] \<Longrightarrow> \<exists>sp imgs2. getSpineAuto K o' = Inr (sp, imgs2)"
proof -
  assume ne: "Images o' \<noteq> []"
  obtain title r1 where t: "spineTitle o' (initialIsOnTheRight o') = (title, r1)"
    by (cases "spineTitle o' (initialIsOnTheRight o')")
  obtain ts imgs r2 where l: "spineLoop K o' r1 (Images o') = (ts, imgs, r2)"
    by (cases "spineLoop K o' r1 (Images o')")
  have "length imgs = length (Images o')"
    using spineLoop_length [of K o' r1 "Images o'"] l by simp
  with ne have "imgs \<noteq> []" by auto
  then show ?thesis
    by (simp add: getSpineAuto_def t l)
qed

lemma spineLoop_singles:
  "\<forall>img \<in> set imgs. \<not> DoublePage img \<and> Part img \<noteq> 1 \<Longrightarrow>
     map Position (fst (snd (spineLoop K o' r imgs))) =
       map (\<lambda>i. if even i = r then spread_left else spread_right) [0..<length imgs]"
proof (induction imgs arbitrary: r)
  case Nil
  then show ?case by simp
next
  case (Cons img imgs)
  have step: "Position (fst (snd (spinePage K o' r img))) = (if r then spread_left else spread_right)"
    and st: "snd (snd (spinePage K o' r img)) = (\<not> r)"
    using Cons.prems spinePage_single [of img K o' r] by simp_all
  have "map Position (fst (snd (spineLoop K o' (\<not> r) imgs))) =
          map (\<lambda>i. if even i = (\<not> r) then spread_left else spread_right) [0..<length imgs]"
    using Cons.IH [of "\<not> r"] Cons.prems by simp
  also have "\<dots> = map ((\<lambda>i. if even i = r then spread_left else spread_right) \<circ> Suc) [0..<length imgs]"
    by (rule map_cong) auto
  finally have tl: "map Position (fst (snd (spineLoop K o' (\<not> r) imgs))) =
      map (\<lambda>i. if even i = r then spread_left else spread_right) (map Suc [0..<length imgs])"
    by simp
  show ?case
    using step st tl
    by (simp add: spineLoop_Cons upt_conv_Cons map_Suc_upt del: spineLoop.simps(2) upt_Suc)
qed

lemmas demo_defs =
  demoBook_def demoManga_def demoContent_def demoPage_def demoImage_def demoKeys_def
  zeroImage_def

lemmas spine_defs =
  getSpineAuto_def spineTitle_def initialIsOnTheRight_def spinePage_def needsSpacer_def
  getSpreadBlank_def getSpread_def stateAfter_def itemref_def attr_def

lemmas spread_defs = spread_center_def spread_left_def spread_right_def layout_blank_def

text \<open>
  C1 (as amended). In \<^verbatim>\<open>getSpineAuto\<close>, every page whose \<open>DoublePage\<close> flag is set gets
  the position center, and \<^verbatim>\<open>isOnTheRight\<close> is then the negation of the manga flag.
  The first half of a split double page (part 1, not flagged double) is not centred: it
  gets the position right in manga mode and left otherwise, and \<^verbatim>\<open>isOnTheRight\<close> is
  then the manga flag. \<^verbatim>\<open>getSpineAuto\<close> returns for every non-empty list of pages.
\<close>

theorem C1_double_page_center:
  assumes "i < length (Images o')"
  shows "\<exists>sp imgs2. getSpineAuto K o' = Inr (sp, imgs2) \<and>
           length imgs2 = length (Images o') \<and>
           (DoublePage (Images o' ! i) \<longrightarrow>
              Position (imgs2 ! i) = spread_center \<and>
              stateAfter K o' (Suc i) = (\<not> Manga (ImageOptions o'))) \<and>
           (\<not> DoublePage (Images o' ! i) \<and> Part (Images o' ! i) = 1 \<longrightarrow>
              Position (imgs2 ! i) =
                (if Manga (ImageOptions o') then spread_right else spread_left) \<and>
              stateAfter K o' (Suc i) = Manga (ImageOptions o'))"
proof -
  from assms have "Images o' \<noteq> []" by auto
  then obtain sp imgs2 where run: "getSpineAuto K o' = Inr (sp, imgs2)"
    using getSpineAuto_returns by blast
  define r0 where "r0 = snd (spineTitle o' (initialIsOnTheRight o'))"
  define r where "r = snd (snd (spineLoop K o' r0 (take i (Images o'))))"
  have imgs2: "imgs2 = fst (snd (spineLoop K o' r0 (Images o')))"
    using getSpineAuto_images [OF run] by (simp add: r0_def)
  have page: "imgs2 ! i = fst (snd (spinePage K o' r (Images o' ! i)))"
    using assms by (simp add: imgs2 r_def spineLoop_take_image)
  have state: "stateAfter K o' (Suc i) = snd (snd (spinePage K o' r (Images o' ! i)))"
    using assms by (simp add: stateAfter_def r_def r0_def spineLoop_take_state)
  have len: "length imgs2 = length (Images o')"
    by (simp add: imgs2 spineLoop_length)
  show ?thesis
    using run len page state
      spinePage_double [of "Images o' ! i" K o' r]
      spinePage_first_half [of "Images o' ! i" K o' r]
    by simp
qed

theorem C1_double_page_center_witness:
  "map DoublePage (Images demoBook) = [False, True, False, False] \<and>
   map Part (Images demoBook) = [0, 0, 1, 2] \<and>
   \<not> Manga (ImageOptions demoBook) \<and>
   (\<exists>sp imgs2. getSpineAuto demoKeys demoBook = Inr (sp, imgs2) \<and>
      Position (imgs2 ! 1) = spread_center \<and> stateAfter demoKeys demoBook 2 \<and>
      Position (imgs2 ! 2) = spread_left \<and> \<not> stateAfter demoKeys demoBook 3)"
proof -
  have shape: "map DoublePage (Images demoBook) = [False, True, False, False] \<and>
      map Part (Images demoBook) = [0, 0, 1, 2] \<and> \<not> Manga (ImageOptions demoBook)"
    by (simp add: demo_defs)
  have i1: "1 < length (Images demoBook)" and i2: "2 < length (Images demoBook)"
    by (simp_all add: demo_defs)
  have d1: "DoublePage (Images demoBook ! 1)"
    and d2: "\<not> DoublePage (Images demoBook ! 2)" "Part (Images demoBook ! 2) = 1"
    by (simp_all add: demo_defs)
  show ?thesis
    using shape C1_double_page_center [OF i1, of demoKeys]
      C1_double_page_center [OF i2, of demoKeys] d1 d2
    by (auto simp add: numeral_2_eq_2 numeral_3_eq_3)
qed

text \<open>
  The claim as written fails on the third page of \<open>demoBook\<close>, the first half of a split
  double page: its position is left, not center.
\<close>

theorem C1_counterexample:
  "map Part (Images demoBook) = [0, 0, 1, 2] \<and>
   map Position (snd (projr (getSpineAuto demoKeys demoBook))) =
     [spread_left, spread_center, spread_left, spread_right] \<and>
   spread_left \<noteq> spread_center"
  by (simp add: demo_defs spine_defs spread_defs)

text \<open>
  C3 (as amended). One turn of the loop of \<^verbatim>\<open>getSpineAuto\<close> puts a spacer right before
  the page exactly when the page is a double page or has part 1 and the manga flag equals
  the current \<^verbatim>\<open>isOnTheRight\<close>. The spacer's properties are not center: they are
  left in manga mode and right otherwise, followed by the blank-layout marker.
\<close>

theorem C3_spacer_before_double_page:
  "fst (spinePage K o' r img) =
     (if (DoublePage img \<or> Part img = 1) \<and> Manga (ImageOptions o') = r
      then [itemref (SpaceKey K img)
              ((if Manga (ImageOptions o') then spread_left else spread_right) @ layout_blank)]
      else []) @
     [itemref (PageKey K (fst (snd (spinePage K o' r img))))
        (Position (fst (snd (spinePage K o' r img))))]"
  by (subst spinePage_tags) (auto simp add: needsSpacer_def)

theorem C3_spacer_before_double_page_witness:
  "map (attr ''idref'') (fst (spinePage demoKeys demoBook False (demoPage 2 ''b'' 0 True))) =
     [Some ''space_b'', Some ''page_b''] \<and>
   map (attr ''properties'') (fst (spinePage demoKeys demoBook False (demoPage 2 ''b'' 0 True))) =
     [Some (spread_right @ layout_blank), Some spread_center]"
  by (subst C3_spacer_before_double_page, subst C3_spacer_before_double_page)
     (simp add: demo_defs spine_defs spread_defs)

text \<open>
  The claim as written fails on \<open>demoBook\<close>: the spacer before the double page \<open>b\<close> has
  the properties right and blank layout, not center.
\<close>

theorem C3_counterexample:
  "map (attr ''idref'') (fst (projr (getSpineAuto demoKeys demoBook))) =
     [Some ''page_a'', Some ''space_b'', Some ''page_b'', Some ''page_c'', Some ''page_d''] \<and>
   map (attr ''properties'') (fst (projr (getSpineAuto demoKeys demoBook))) =
     [Some spread_left, Some (spread_right @ layout_blank), Some spread_center,
      Some spread_left, Some spread_right] \<and>
   spread_right @ layout_blank \<noteq> spread_center @ layout_blank"
  by (simp add: demo_defs spine_defs spread_defs)

text \<open>
  C4. The initial \<^verbatim>\<open>isOnTheRight\<close> is true exactly when manga is off, and the other
  way round in compatibility mode (manga with compatibility gives true). Over a run of
  pages that are neither double nor a first half (part 0 in particular), from any state
  \<open>r\<close>, the positions alternate: page \<open>i\<close> of the run is left when \<open>even i = r\<close> and
  right otherwise, so two pages in a row never get the same side. Without a title page
  the run starts from the initial state: manga without compatibility gives right, left,
  right, left and so on.
\<close>

theorem C4_alternation:
  "initialIsOnTheRight o' =
     (if AppleBookCompatibility (ImageOptions o') then Manga (ImageOptions o')
      else \<not> Manga (ImageOptions o')) \<and>
   ((\<forall>img \<in> set imgs. \<not> DoublePage img \<and> Part img \<noteq> 1) \<longrightarrow>
      map Position (fst (snd (spineLoop K o' r imgs))) =
        map (\<lambda>i. if even i = r then spread_left else spread_right) [0..<length imgs] \<and>
      (\<forall>i. Suc i < length imgs \<longrightarrow>
         Position (fst (snd (spineLoop K o' r imgs)) ! i) \<noteq>
         Position (fst (snd (spineLoop K o' r imgs)) ! Suc i))) \<and>
   (\<not> HasTitlePage o' \<and> Images o' \<noteq> [] \<and>
    (\<forall>img \<in> set (Images o'). \<not> DoublePage img \<and> Part img \<noteq> 1) \<longrightarrow>
      (\<exists>sp imgs2. getSpineAuto K o' = Inr (sp, imgs2) \<and>
         map Position imgs2 =
           map (\<lambda>i. if even i = initialIsOnTheRight o' then spread_left else spread_right)
             [0..<length (Images o')]))"
proof (intro conjI impI)
  show "initialIsOnTheRight o' =
     (if AppleBookCompatibility (ImageOptions o') then Manga (ImageOptions o')
      else \<not> Manga (ImageOptions o'))"
    by (simp add: initialIsOnTheRight_def)
next
  assume singles: "\<forall>img \<in> set imgs. \<not> DoublePage img \<and> Part img \<noteq> 1"
  then show pos: "map Position (fst (snd (spineLoop K o' r imgs))) =
        map (\<lambda>i. if even i = r then spread_left else spread_right) [0..<length imgs]"
    by (rule spineLoop_singles)
  show "\<forall>i. Suc i < length imgs \<longrightarrow>
         Position (fst (snd (spineLoop K o' r imgs)) ! i) \<noteq>
         Position (fst (snd (spineLoop K o' r imgs)) ! Suc i)"
  proof (intro allI impI)
    fix i
    assume i: "Suc i < length imgs"
    let ?f = "\<lambda>i. if even i = r then spread_left else spread_right"
    have "map Position (fst (snd (spineLoop K o' r imgs))) ! i = ?f i"
      and "map Position (fst (snd (spineLoop K o' r imgs))) ! Suc i = ?f (Suc i)"
      using i by (simp_all only: pos) simp_all
    then show "Position (fst (snd (spineLoop K o' r imgs)) ! i) \<noteq>
         Position (fst (snd (spineLoop K o' r imgs)) ! Suc i)"
      using i by (auto simp add: spineLoop_length spread_defs)
  qed
next
  assume h: "\<not> HasTitlePage o' \<and> Images o' \<noteq> [] \<and>
    (\<forall>img \<in> set (Images o'). \<not> DoublePage img \<and> Part img \<noteq> 1)"
  then obtain sp imgs2 where run: "getSpineAuto K o' = Inr (sp, imgs2)"
    using getSpineAuto_returns by blast
  have "snd (spineTitle o' (initialIsOnTheRight o')) = initialIsOnTheRight o'"
    using h by (simp add: spineTitle_def)
  then have "imgs2 = fst (snd (spineLoop K o' (initialIsOnTheRight o') (Images o')))"
    using getSpineAuto_images [OF run] by simp
  then have "map Position imgs2 =
           map (\<lambda>i. if even i = initialIsOnTheRight o' then spread_left else spread_right)
             [0..<length (Images o')]"
    using h spineLoop_singles [of "Images o'" K o' "initialIsOnTheRight o'"] by simp
  with run show "\<exists>sp imgs2. getSpineAuto K o' = Inr (sp, imgs2) \<and>
         map Position imgs2 =
           map (\<lambda>i. if even i = initialIsOnTheRight o' then spread_left else spread_right)
             [0..<length (Images o')]"
    by blast
qed

theorem C4_alternation_witness:
  "Manga (ImageOptions demoManga) \<and> \<not> AppleBookCompatibility (ImageOptions demoManga) \<and>
   \<not> HasTitlePage demoManga \<and> length (Images demoManga) = 5 \<and>
   list_all (\<lambda>img. \<not> DoublePage img \<and> Part img = 0) (Images demoManga) \<and>
   \<not> initialIsOnTheRight demoManga \<and>
   map Position (snd (projr (getSpineAuto demoKeys demoManga))) =
     [spread_right, spread_left, spread_right, spread_left, spread_right]"
proof -
  have shape: "Manga (ImageOptions demoManga) \<and>
      \<not> AppleBookCompatibility (ImageOptions demoManga) \<and>
      \<not> HasTitlePage demoManga \<and> length (Images demoManga) = 5 \<and>
      list_all (\<lambda>img. \<not> DoublePage img \<and> Part img = 0) (Images demoManga)"
    by (simp add: demo_defs)
  then have hyp: "\<not> HasTitlePage demoManga \<and> Images demoManga \<noteq> [] \<and>
      (\<forall>img \<in> set (Images demoManga). \<not> DoublePage img \<and> Part img \<noteq> 1)"
    by (auto simp add: list_all_iff)
  have upt5: "[0..<5] = [0, 1, 2, 3, 4::nat]"
    by (simp add: upt_rec)
  from C4_alternation [of demoManga "Images demoManga" demoKeys False] hyp shape
  show ?thesis
    by (auto simp add: upt5)
qed

section \<open>Properties of the transform engine\<close>

lemma cropChain_unsplit:
  "cropChain fb e input 0 right =
     (if Crop_Enabled (Image' e) \<or>
         (NoBlankImage (Image' e) \<and>
          Dx (fb (autoCropFilter e (task_Image input) (Bounds (task_Image input)))
                (Bounds (task_Image input))) = 0 \<and>
          Dy (fb (autoCropFilter e (task_Image input) (Bounds (task_Image input)))
                (Bounds (task_Image input))) = 0)
      then [autoCropFilter e (task_Image input) (Bounds (task_Image input))]
      else [])"
  by (simp add: cropChain_def gBounds_def Let_def)

lemma transformImage_fields:
  "Id' (transformImage fb e input part right) = task_Id input"
  "Part (transformImage fb e input part right) = part"
  "DoublePage (transformImage fb e input part right) = isDoublePage fb e input part right"
  by (simp_all add: transformImage_def Let_def)

text \<open>
  C5. The \<open>DoublePage\<close> flag of the page that \<^verbatim>\<open>transformImage\<close> returns is true exactly
  when the part is 0, the bounds of the source are wider than tall, and the destination
  bounds are wider than tall, where the destination bounds are \<^verbatim>\<open>dstBounds\<close> of line
  217: the bounds after the filters added so far, the split and the crop (for part 0 the
  crop alone, when it applies). So the flag is never true for part 1 or 2, and a source
  whose crop is not wider than tall is never flagged.
\<close>

theorem C5_double_page_flag:
  "DoublePage (transformImage fb e input part right) =
     (part = 0 \<and>
      Dy (Bounds (task_Image input)) < Dx (Bounds (task_Image input)) \<and>
      Dy (gBounds fb (cropChain fb e input part right) (Bounds (task_Image input))) <
      Dx (gBounds fb (cropChain fb e input part right) (Bounds (task_Image input)))) \<and>
   cropChain fb e input 0 right =
     (if Crop_Enabled (Image' e) \<or>
         (NoBlankImage (Image' e) \<and>
          Dx (fb (autoCropFilter e (task_Image input) (Bounds (task_Image input)))
                (Bounds (task_Image input))) = 0 \<and>
          Dy (fb (autoCropFilter e (task_Image input) (Bounds (task_Image input)))
                (Bounds (task_Image input))) = 0)
      then [autoCropFilter e (task_Image input) (Bounds (task_Image input))]
      else []) \<and>
   \<not> DoublePage (transformImage fb e input 1 right) \<and>
   \<not> DoublePage (transformImage fb e input 2 right) \<and>
   (Dx (gBounds fb (cropChain fb e input part right) (Bounds (task_Image input))) \<le>
    Dy (gBounds fb (cropChain fb e input part right) (Bounds (task_Image input))) \<longrightarrow>
      \<not> DoublePage (transformImage fb e input part right))"
  by (simp add: transformImage_fields isDoublePage_def Let_def cropChain_unsplit)

lemmas engine_defs =
  transformImage_def isDoublePage_def cropChain_def toneChain_def gBounds_def
  autoCropFilter_def createImage_def f64_div_def Dx_def Dy_def Rect_def

lemmas pool_demo_defs =
  demoOptions_def demoCrop_def demoInputs_def demoTask_def demoEnv_def demoImage_def idPart_def

theorem C5_double_page_flag_witness:
  "Bounds (task_Image (demoTask 1 ''wide'' 2000 1000)) = Rect 0 0 2000 1000 \<and>
   gBounds demoBounds (cropChain demoBounds demoCrop (demoTask 1 ''wide'' 2000 1000) 0 False)
     (Rect 0 0 2000 1000) = Rect 0 0 800 1000 \<and>
   \<not> DoublePage (transformImage demoBounds demoCrop (demoTask 1 ''wide'' 2000 1000) 0 False) \<and>
   DoublePage (transformImage demoBounds demoOptions (demoTask 1 ''wide'' 2000 1000) 0 False) \<and>
   \<not> DoublePage (transformImage demoBounds demoOptions (demoTask 1 ''wide'' 2000 1000) 1 False)"
proof -
  have crop: "gBounds demoBounds
      (cropChain demoBounds demoCrop (demoTask 1 ''wide'' 2000 1000) 0 False)
      (Rect 0 0 2000 1000) = Rect 0 0 800 1000"
    by (simp add: engine_defs pool_demo_defs)
  have src: "Bounds (task_Image (demoTask 1 ''wide'' 2000 1000)) = Rect 0 0 2000 1000"
    by (simp add: demoTask_def)
  have nocrop: "gBounds demoBounds
      (cropChain demoBounds demoOptions (demoTask 1 ''wide'' 2000 1000) 0 False)
      (Rect 0 0 2000 1000) = Rect 0 0 2000 1000"
    by (simp add: engine_defs pool_demo_defs)
  show ?thesis
    using C5_double_page_flag [of demoBounds demoCrop "demoTask 1 ''wide'' 2000 1000" 0 False]
      C5_double_page_flag [of demoBounds demoOptions "demoTask 1 ''wide'' 2000 1000" 0 False]
      crop nocrop
    by (simp add: src) (simp add: Dx_def Dy_def Rect_def)
qed

section \<open>Properties of the worker pool and the assembler\<close>

lemma sendSplit_halves:
  "snd (sendSplit env e input [(0, m), (1, n)]) = Inr out \<Longrightarrow>
     out = [(transformImage (filterBounds env) e input 1 m)\<lparr>Raw := None\<rparr>,
            (transformImage (filterBounds env) e input 2 n)\<lparr>Raw := None\<rparr>]"
  by (auto simp add: Let_def split: option.splits)

lemma processTask_sent:
  "snd (processTask env e input) = Inr out \<Longrightarrow>
     out =
       (let img = transformImage (filterBounds env) e input 0 (Manga (Image' e)) in
        (if withheld e input img then []
         else [if 0 < Id' img then img\<lparr>Raw := None\<rparr> else img]) @
        (if noSplit e img then []
         else [(transformImage (filterBounds env) e input 1 (Manga (Image' e)))\<lparr>Raw := None\<rparr>,
               (transformImage (filterBounds env) e input 2 (\<not> Manga (Image' e)))
                 \<lparr>Raw := None\<rparr>]))"
proof -
  assume ok: "snd (processTask env e input) = Inr out"
  define img where "img = transformImage (filterBounds env) e input 0 (Manga (Image' e))"
  obtain st r where u: "sendUnsplit env e input img = (st, r)"
    by (cases "sendUnsplit env e input img")
  obtain st2 r2 where s:
    "sendSplit env e input [(0, Manga (Image' e)), (1, \<not> Manga (Image' e))] = (st2, r2)"
    by (cases "sendSplit env e input [(0, Manga (Image' e)), (1, \<not> Manga (Image' e))]")
  from ok obtain out0 where r: "r = Inr out0"
    by (cases r) (simp_all add: processTask_def Let_def img_def [symmetric] u)
  have out0: "out0 = (if withheld e input img then []
         else [if 0 < Id' img then img\<lparr>Raw := None\<rparr> else img])"
    using u r by (auto simp add: sendUnsplit_def split: if_splits option.splits)
  show ?thesis
  proof (cases "noSplit e img")
    case True
    with ok u r out0 show ?thesis
      by (simp add: processTask_def Let_def img_def [symmetric])
  next
    case False
    with ok u r s obtain out2 where r2: "r2 = Inr out2" and out: "out = out0 @ out2"
      by (cases r2) (simp_all add: processTask_def Let_def img_def [symmetric])
    have "snd (sendSplit env e input [(0, Manga (Image' e)), (1, \<not> Manga (Image' e))]) =
            Inr out2"
      using s r2 by simp
    then have "out2 =
        [(transformImage (filterBounds env) e input 1 (Manga (Image' e)))\<lparr>Raw := None\<rparr>,
         (transformImage (filterBounds env) e input 2 (\<not> Manga (Image' e)))\<lparr>Raw := None\<rparr>]"
      by (rule sendSplit_halves)
    with False out out0 show ?thesis
      by (simp add: Let_def img_def [symmetric])
  qed
qed

text \<open>When the storage takes every page, the worker returns.\<close>

lemma processTask_returns:
  "\<forall>img. storageAdd env img = None \<Longrightarrow> \<exists>out. snd (processTask env e input) = Inr out"
  by (simp add: processTask_def sendUnsplit_def Let_def)

lemma processTask_variants:
  "snd (processTask env e input) = Inr out \<Longrightarrow>
     (let img0 = transformImage (filterBounds env) e input 0 (Manga (Image' e));
          halves = (AutoSplitDoublePage (Image' e) \<and> DoublePage img0 \<and>
                    \<not> (HasCover (Image' e) \<and> task_Id input = 0))
      in ((\<exists>img \<in> set out. Part img = 0) =
            (\<not> (DoublePage img0 \<and> AutoSplitDoublePage (Image' e) \<and>
                \<not> KeepDoublePageIfSplit (Image' e) \<and> 0 < task_Id input))) \<and>
         ((\<exists>img \<in> set out. Part img = 1) = halves) \<and>
         ((\<exists>img \<in> set out. Part img = 2) = halves) \<and>
         (\<forall>img \<in> set out.
            Id' img = task_Id input \<and> (Part img = 0 \<or> Part img = 1 \<or> Part img = 2)) \<and>
         distinct (map Part out))"
proof -
  assume "snd (processTask env e input) = Inr out"
  from processTask_sent [OF this] show ?thesis
    by (auto simp add: Let_def withheld_def noSplit_def transformImage_fields)
qed

text \<open>What the pool sends is, task by task, what a worker sends for the task.\<close>

lemma runWorkers_sent:
  "snd (runWorkers env e inputs) = Inr outs \<Longrightarrow>
     length outs = length inputs \<and>
     (\<forall>k < length inputs. snd (processTask env e (inputs ! k)) = Inr (outs ! k))"
proof (induction inputs arbitrary: outs)
  case Nil
  then show ?case by simp
next
  case (Cons input inputs)
  obtain st r where p: "processTask env e input = (st, r)"
    by (cases "processTask env e input")
  obtain st2 r2 where w: "runWorkers env e inputs = (st2, r2)"
    by (cases "runWorkers env e inputs")
  from Cons.prems p obtain out where r: "r = Inr out"
    by (cases r) simp_all
  from Cons.prems p r w obtain outs2 where r2: "r2 = Inr outs2" and outs: "outs = out # outs2"
    by (cases r2) simp_all
  have "length outs2 = length inputs \<and>
     (\<forall>k < length inputs. snd (processTask env e (inputs ! k)) = Inr (outs2 ! k))"
    using Cons.IH [of outs2] w r2 by simp
  with p r outs show ?case
    by (auto simp add: nth_Cons split: nat.splits)
qed

lemma runWorkers_returns:
  "\<forall>img. storageAdd env img = None \<Longrightarrow> \<exists>outs. snd (runWorkers env e inputs) = Inr outs"
proof (induction inputs)
  case Nil
  then show ?case by simp
next
  case (Cons input inputs)
  then obtain out outs where "snd (processTask env e input) = Inr out"
    and "snd (runWorkers env e inputs) = Inr outs"
    using processTask_returns [of env e input] by blast
  then show ?case
    by (cases "processTask env e input"; cases "runWorkers env e inputs") simp
qed

text \<open>
  C2. Of the pages that the pool sends for a task of the input: the unsplit page
  (part 0) is sent unless the page was detected double, auto-split is on,
  keep-double-page-if-split is off and the task's id is above 0; the two halves (part 1
  and part 2) are sent exactly when auto-split is on, the page was detected double, and
  it is not the cover (has-cover with id 0). Nothing else is sent for the task, and no
  part twice. (The pool sends its pages unless a call of the storage fails, which ends
  the process.)
\<close>

theorem C2_sent_variants:
  "snd (runWorkers env e inputs) = Inr outs \<Longrightarrow> k < length inputs \<Longrightarrow>
     (let input = inputs ! k;
          out = outs ! k;
          img0 = transformImage (filterBounds env) e input 0 (Manga (Image' e));
          halves = (AutoSplitDoublePage (Image' e) \<and> DoublePage img0 \<and>
                    \<not> (HasCover (Image' e) \<and> task_Id input = 0))
      in ((\<exists>img \<in> set out. Part img = 0) =
            (\<not> (DoublePage img0 \<and> AutoSplitDoublePage (Image' e) \<and>
                \<not> KeepDoublePageIfSplit (Image' e) \<and> 0 < task_Id input))) \<and>
         ((\<exists>img \<in> set out. Part img = 1) = halves) \<and>
         ((\<exists>img \<in> set out. Part img = 2) = halves) \<and>
         (\<forall>img \<in> set out.
            Id' img = task_Id input \<and> (Part img = 0 \<or> Part img = 1 \<or> Part img = 2)) \<and>
         distinct (map Part out))"
proof -
  assume "snd (runWorkers env e inputs) = Inr outs" and "k < length inputs"
  then have "snd (processTask env e (inputs ! k)) = Inr (outs ! k)"
    using runWorkers_sent [of env e inputs outs] by simp
  from processTask_variants [OF this] show ?thesis
    by (simp add: Let_def)
qed

lemmas pool_defs =
  processTask_def sendUnsplit_def withheld_def noSplit_def Load_def dryImage_def

theorem C2_sent_variants_witness:
  "map task_Id demoInputs = [0, 1] \<and>
   \<not> DoublePage (transformImage demoBounds demoOptions (demoInputs ! 0) 0 False) \<and>
   DoublePage (transformImage demoBounds demoOptions (demoInputs ! 1) 0 False) \<and>
   AutoSplitDoublePage (Image' demoOptions) \<and> \<not> KeepDoublePageIfSplit (Image' demoOptions) \<and>
   HasCover (Image' demoOptions) \<and>
   map (map idPart) (projr (snd (runWorkers (demoEnv demoInputs) demoOptions demoInputs))) =
     [[(0, 0)], [(1, 1), (1, 2)]] \<and>
   (\<exists>img \<in> set (projr (snd (runWorkers (demoEnv demoInputs) demoOptions demoInputs)) ! 0).
      Part img = 0) \<and>
   \<not> (\<exists>img \<in> set (projr (snd (runWorkers (demoEnv demoInputs) demoOptions demoInputs)) ! 0).
      Part img = 1) \<and>
   \<not> (\<exists>img \<in> set (projr (snd (runWorkers (demoEnv demoInputs) demoOptions demoInputs)) ! 1).
      Part img = 0) \<and>
   (\<exists>img \<in> set (projr (snd (runWorkers (demoEnv demoInputs) demoOptions demoInputs)) ! 1).
      Part img = 1) \<and>
   (\<exists>img \<in> set (projr (snd (runWorkers (demoEnv demoInputs) demoOptions demoInputs)) ! 1).
      Part img = 2)"
proof -
  define outs where "outs = projr (snd (runWorkers (demoEnv demoInputs) demoOptions demoInputs))"
  define cover where "cover = demoInputs ! 0"
  define wide where "wide = demoInputs ! 1"
  have run: "snd (runWorkers (demoEnv demoInputs) demoOptions demoInputs) = Inr outs"
    unfolding outs_def by code_simp
  have sent: "map (map idPart) outs = [[(0, 0)], [(1, 1), (1, 2)]]"
    unfolding outs_def by code_simp
  have ids: "map task_Id demoInputs = [0, 1]"
    by code_simp
  have flags:
    "\<not> DoublePage (transformImage demoBounds demoOptions cover 0 False)"
    "DoublePage (transformImage demoBounds demoOptions wide 0 False)"
    "AutoSplitDoublePage (Image' demoOptions)"
    "\<not> KeepDoublePageIfSplit (Image' demoOptions)"
    "HasCover (Image' demoOptions)"
    unfolding cover_def wide_def by code_simp+
  have fb: "filterBounds (demoEnv demoInputs) = demoBounds"
    by (simp add: demoEnv_def)
  have env: "\<not> Manga (Image' demoOptions)" "task_Id cover = 0" "task_Id wide = 1"
    unfolding cover_def wide_def by code_simp+
  have len: "0 < length demoInputs" "1 < length demoInputs"
    by code_simp+
  have w1: "demoInputs ! Suc 0 = wide"
    by (simp add: wide_def)
  have first: "(\<exists>img \<in> set (outs ! 0). Part img = 0) \<and> \<not> (\<exists>img \<in> set (outs ! 0). Part img = 1)"
    using C2_sent_variants [OF run len(1)] flags env fb
    by (simp add: Let_def cover_def [symmetric])
  have second: "\<not> (\<exists>img \<in> set (outs ! 1). Part img = 0) \<and>
      (\<exists>img \<in> set (outs ! 1). Part img = 1) \<and> (\<exists>img \<in> set (outs ! 1). Part img = 2)"
    using C2_sent_variants [OF run len(2)] flags env fb
    by (simp add: Let_def w1)
  from ids flags sent first second show ?thesis
    unfolding outs_def cover_def wide_def by blast
qed

text \<open>
  The receiving loop counts the pages of part 0 that arrive and keeps, in their order
  of arrival, the pages that blank removal does not drop.
\<close>

lemma receive_eq:
  "receive e (bar, images) out =
     (bar + length (filter (\<lambda>img. Part img = 0) out),
      images @ filter (\<lambda>img. \<not> (NoBlankImage (Image' e) \<and> IsBlank img)) out)"
  by (induction out arbitrary: bar images) (simp_all add: Let_def)

lemma Load_assembled:
  assumes "loadResult env = Inr (n, inputs)" and "\<not> Dry e" and "newStorage env = None"
    and "snd (runWorkers env e (if workers env = 0 then [] else inputs)) = Inr outs"
  shows "result (Load env e) =
           (if filter (\<lambda>img. \<not> (NoBlankImage (Image' e) \<and> IsBlank img)) (arrival env outs) = []
            then Inl errNoImagesFound
            else Inr (filter (\<lambda>img. \<not> (NoBlankImage (Image' e) \<and> IsBlank img))
                        (arrival env outs)))"
    and "barCount (Load env e) = length (filter (\<lambda>img. Part img = 0) (arrival env outs))"
proof -
  obtain st where "runWorkers env e (if workers env = 0 then [] else inputs) = (st, Inr outs)"
    using assms(4) by (cases "runWorkers env e (if workers env = 0 then [] else inputs)") simp
  then show "result (Load env e) =
           (if filter (\<lambda>img. \<not> (NoBlankImage (Image' e) \<and> IsBlank img)) (arrival env outs) = []
            then Inl errNoImagesFound
            else Inr (filter (\<lambda>img. \<not> (NoBlankImage (Image' e) \<and> IsBlank img))
                        (arrival env outs)))"
    and "barCount (Load env e) = length (filter (\<lambda>img. Part img = 0) (arrival env outs))"
    using assms(1-3) by (simp_all add: Load_def receive_eq)
qed

lemma Load_never_empty: "\<not> Dry e \<Longrightarrow> result (Load env e) \<noteq> Inr []"
  by (auto simp add: Load_def receive_eq split: sum.splits option.splits prod.splits)

text \<open>
  C7. Past the dry run, \<^verbatim>\<open>Load\<close> never returns an empty list. When the workers have
  sent their pages, the list of \<^verbatim>\<open>Load\<close> is the pages that arrived, in their order,
  without those that blank removal drops (the option on and the page's \<open>IsBlank\<close> set);
  when nothing is left, \<^verbatim>\<open>Load\<close> fails with \<open>errNoImagesFound\<close>. So with blank removal
  on, no page of the list has \<open>IsBlank\<close> set.
\<close>

theorem C7_blank_removal_and_no_images:
  "(\<not> Dry e \<longrightarrow> result (Load env e) \<noteq> Inr []) \<and>
   (loadResult env = Inr (n, inputs) \<and> \<not> Dry e \<and> newStorage env = None \<and>
    snd (runWorkers env e (if workers env = 0 then [] else inputs)) = Inr outs \<longrightarrow>
      result (Load env e) =
        (if filter (\<lambda>img. \<not> (NoBlankImage (Image' e) \<and> IsBlank img)) (arrival env outs) = []
         then Inl errNoImagesFound
         else Inr (filter (\<lambda>img. \<not> (NoBlankImage (Image' e) \<and> IsBlank img))
                     (arrival env outs)))) \<and>
   (\<not> Dry e \<and> NoBlankImage (Image' e) \<and> result (Load env e) = Inr images \<longrightarrow>
      images \<noteq> [] \<and> (\<forall>img \<in> set images. \<not> IsBlank img))"
proof (intro conjI impI)
  assume "\<not> Dry e"
  then show "result (Load env e) \<noteq> Inr []"
    by (rule Load_never_empty)
next
  assume "loadResult env = Inr (n, inputs) \<and> \<not> Dry e \<and> newStorage env = None \<and>
    snd (runWorkers env e (if workers env = 0 then [] else inputs)) = Inr outs"
  then show "result (Load env e) =
        (if filter (\<lambda>img. \<not> (NoBlankImage (Image' e) \<and> IsBlank img)) (arrival env outs) = []
         then Inl errNoImagesFound
         else Inr (filter (\<lambda>img. \<not> (NoBlankImage (Image' e) \<and> IsBlank img))
                     (arrival env outs)))"
    using Load_assembled(1) [of env n inputs e outs] by simp
next
  assume h: "\<not> Dry e \<and> NoBlankImage (Image' e) \<and> result (Load env e) = Inr images"
  then show "images \<noteq> []"
    using Load_never_empty [of e env] by auto
next
  assume h: "\<not> Dry e \<and> NoBlankImage (Image' e) \<and> result (Load env e) = Inr images"
  then show "\<forall>img \<in> set images. \<not> IsBlank img"
    by (auto simp add: Load_def receive_eq split: sum.splits option.splits prod.splits if_splits)
qed

theorem C7_blank_removal_and_no_images_witness:
  "NoBlankImage (Image' demoBlank) \<and> \<not> Dry demoBlank \<and>
   map idPart (concat (projr (snd (runWorkers
      (demoEnv [demoTask 0 ''cover'' 1000 1500, demoTask 1 ''blank'' 100 100]) demoBlank
      [demoTask 0 ''cover'' 1000 1500, demoTask 1 ''blank'' 100 100])))) = [(0, 0), (1, 0)] \<and>
   map idPart (projr (result (Load
      (demoEnv [demoTask 0 ''cover'' 1000 1500, demoTask 1 ''blank'' 100 100]) demoBlank))) =
     [(0, 0)] \<and>
   result (Load (demoEnv [demoTask 1 ''blank'' 100 100]) demoBlank) = Inl errNoImagesFound"
proof -
  define two where "two = [demoTask 0 ''cover'' 1000 1500, demoTask 1 ''blank'' 100 100]"
  define one where "one = [demoTask 1 ''blank'' 100 100]"
  define env2 where "env2 = demoEnv two"
  define env1 where "env1 = demoEnv one"
  define outs2 where "outs2 = projr (snd (runWorkers env2 demoBlank two))"
  define outs1 where "outs1 = projr (snd (runWorkers env1 demoBlank one))"
  define kept2 where
    "kept2 = filter (\<lambda>img. \<not> (NoBlankImage (Image' demoBlank) \<and> IsBlank img)) (arrival env2 outs2)"
  define kept1 where
    "kept1 = filter (\<lambda>img. \<not> (NoBlankImage (Image' demoBlank) \<and> IsBlank img)) (arrival env1 outs1)"
  note defs = two_def one_def env2_def env1_def outs2_def outs1_def kept2_def kept1_def
  have opts: "NoBlankImage (Image' demoBlank) \<and> \<not> Dry demoBlank"
    by code_simp
  have sent2: "map idPart (concat outs2) = [(0, 0), (1, 0)]"
    unfolding defs by code_simp
  have hyp2: "loadResult env2 = Inr (2, two) \<and> \<not> Dry demoBlank \<and> newStorage env2 = None \<and>
      snd (runWorkers env2 demoBlank (if workers env2 = 0 then [] else two)) = Inr outs2"
    unfolding defs by code_simp
  have hyp1: "loadResult env1 = Inr (1, one) \<and> \<not> Dry demoBlank \<and> newStorage env1 = None \<and>
      snd (runWorkers env1 demoBlank (if workers env1 = 0 then [] else one)) = Inr outs1"
    unfolding defs by code_simp
  have k2: "map idPart kept2 = [(0, 0)]"
    unfolding defs by code_simp
  have k1: "kept1 = []"
    unfolding defs by code_simp
  from k2 have ne: "kept2 \<noteq> []"
    by auto
  have "result (Load env2 demoBlank) = (if kept2 = [] then Inl errNoImagesFound else Inr kept2)"
    unfolding kept2_def
    using C7_blank_removal_and_no_images [of demoBlank env2 2 two outs2] hyp2
    by blast
  with ne k2 have r2: "map idPart (projr (result (Load env2 demoBlank))) = [(0, 0)]"
    by simp
  have "result (Load env1 demoBlank) = (if kept1 = [] then Inl errNoImagesFound else Inr kept1)"
    unfolding kept1_def
    using C7_blank_removal_and_no_images [of demoBlank env1 1 one outs1] hyp1
    by blast
  with k1 have r1: "result (Load env1 demoBlank) = Inl errNoImagesFound"
    by simp
  from opts sent2 r2 r1 show ?thesis
    unfolding outs2_def env2_def env1_def two_def one_def by blast
qed

text \<open>
  C10. In a dry run \<^verbatim>\<open>Load\<close> returns one page per task of the input, in order, with
  the task's id, path and name and the format of the options; every other field has
  Go's zero value. It stores nothing, and the storage, the filters, the workers and the
  scheduler have no part in the result. For an empty input the result is the empty
  list, with no error.
\<close>

theorem C10_dry_run:
  "(Dry e \<and> loadResult env = Inr (n, inputs) \<longrightarrow>
      result (Load env e) =
        Inr (map (\<lambda>t. zeroImage\<lparr>Id' := task_Id t, Path := task_Path t, Name := task_Name t,
                               Format := Format' (Image' e)\<rparr>) inputs) \<and>
      length (projr (result (Load env e))) = length inputs \<and>
      stored (Load env e) = [] \<and>
      Load (env\<lparr>newStorage := s, storageAdd := a, workers := w, filterBounds := fb,
                arrival := ar\<rparr>) e = Load env e) \<and>
   (Dry e \<and> loadResult env = Inr (n, []) \<longrightarrow> result (Load env e) = Inr [])"
  by (simp add: Load_def dryImage_def)

theorem C10_dry_run_witness:
  "Dry demoDry \<and>
   result (Load (demoEnv demoInputs) demoDry) =
     Inr [zeroImage\<lparr>Id' := 0, Name := ''cover'', Format := ''jpeg''\<rparr>,
          zeroImage\<lparr>Id' := 1, Name := ''wide'', Format := ''jpeg''\<rparr>] \<and>
   stored (Load (demoEnv demoInputs) demoDry) = [] \<and>
   result (Load (demoEnv []) demoDry) = Inr []"
proof -
  have dry: "Dry demoDry"
    by code_simp
  have in2: "loadResult (demoEnv demoInputs) = Inr (2, demoInputs)"
    and in0: "loadResult (demoEnv []) = Inr (0, [])"
    by code_simp+
  have pages: "map (\<lambda>t. zeroImage\<lparr>Id' := task_Id t, Path := task_Path t, Name := task_Name t,
                               Format := Format' (Image' demoDry)\<rparr>) demoInputs =
     [zeroImage\<lparr>Id' := 0, Name := ''cover'', Format := ''jpeg''\<rparr>,
      zeroImage\<lparr>Id' := 1, Name := ''wide'', Format := ''jpeg''\<rparr>]"
    by code_simp
  show ?thesis
    using C10_dry_run [of demoDry "demoEnv demoInputs" 2 demoInputs]
      C10_dry_run [of demoDry "demoEnv []" 0] dry in2 in0 pages
    by simp
qed

text \<open>
  The pages of part 0 that the pool sends: one for each task whose unsplit page is not
  withheld, none for the others.
\<close>

lemma processTask_part0_count:
  "snd (processTask env e input) = Inr out \<Longrightarrow>
     length (filter (\<lambda>img. Part img = 0) out) =
       (if withheld e input (transformImage (filterBounds env) e input 0 (Manga (Image' e)))
        then 0 else 1)"
proof -
  assume "snd (processTask env e input) = Inr out"
  from processTask_sent [OF this] show ?thesis
    by (simp add: Let_def transformImage_fields)
qed

lemma runWorkers_part0_count:
  "snd (runWorkers env e inputs) = Inr outs \<Longrightarrow>
     length (filter (\<lambda>img. Part img = 0) (concat outs)) =
       length (filter (\<lambda>input. \<not> withheld e input
                 (transformImage (filterBounds env) e input 0 (Manga (Image' e)))) inputs)"
proof (induction inputs arbitrary: outs)
  case Nil
  then show ?case by simp
next
  case (Cons input inputs)
  obtain st r where p: "processTask env e input = (st, r)"
    by (cases "processTask env e input")
  obtain st2 r2 where w: "runWorkers env e inputs = (st2, r2)"
    by (cases "runWorkers env e inputs")
  from Cons.prems p obtain out where r: "r = Inr out"
    by (cases r) simp_all
  from Cons.prems p r w obtain outs2 where r2: "r2 = Inr outs2" and outs: "outs = out # outs2"
    by (cases r2) simp_all
  have one: "length (filter (\<lambda>img. Part img = 0) out) =
       (if withheld e input (transformImage (filterBounds env) e input 0 (Manga (Image' e)))
        then 0 else 1)"
    using processTask_part0_count [of env e input out] p r by simp
  have rest: "length (filter (\<lambda>img. Part img = 0) (concat outs2)) =
       length (filter (\<lambda>input. \<not> withheld e input
                 (transformImage (filterBounds env) e input 0 (Manga (Image' e)))) inputs)"
    using Cons.IH [of outs2] w r2 by simp
  show ?case
    using one rest by (simp add: outs)
qed

text \<open>
  Whatever the order of arrival, when every page sent arrives once, the progress bar
  ends at the number of tasks whose unsplit page was not withheld.
\<close>

lemma Load_bar_count:
  assumes "loadResult env = Inr (n, inputs)" and "\<not> Dry e" and "newStorage env = None"
    and "0 < workers env"
    and "snd (runWorkers env e inputs) = Inr outs"
    and "mset (arrival env outs) = mset (concat outs)"
  shows "barCount (Load env e) =
           length (filter (\<lambda>input. \<not> withheld e input
                     (transformImage (filterBounds env) e input 0 (Manga (Image' e)))) inputs)"
proof -
  have "barCount (Load env e) = length (filter (\<lambda>img. Part img = 0) (arrival env outs))"
    using Load_assembled(2) [of env n inputs e outs] assms by simp
  also have "\<dots> = size (filter_mset (\<lambda>img. Part img = 0) (mset (arrival env outs)))"
    by (simp only: mset_filter [symmetric] size_mset)
  also have "\<dots> = length (filter (\<lambda>img. Part img = 0) (concat outs))"
    by (simp only: assms(6) mset_filter [symmetric] size_mset)
  finally show ?thesis
    using runWorkers_part0_count [OF assms(5)] by simp
qed

text \<open>
  C6. The receiving loop adds one to the progress bar for every page of part 0 that
  arrives, before blank removal looks at the page, so a page dropped as blank is
  counted. A page of part 0 that the worker withholds is never sent and never counted.
  In the run below the loader delivers two tasks (\<^verbatim>\<open>imageCount\<close>, the maximum of the bar,
  is 2); the second is a double page that is split and whose unsplit page is withheld;
  the count ends at 1, not at 2.
\<close>

theorem C6_progress_count_withheld:
  "loadResult (demoEnv demoInputs) = Inr (2, demoInputs) \<and>
   map idPart (projr (result (Load (demoEnv demoInputs) demoOptions))) =
     [(0, 0), (1, 1), (1, 2)] \<and>
   barCount (Load (demoEnv demoInputs) demoOptions) = 1"
  by code_simp

section \<open>Properties of the manifest\<close>

text \<open>
  C8 (as amended). The manifest of a non-empty list of pages ends with one spacer item
  for each page of \<^verbatim>\<open>spaceTags\<close>. A page is among them exactly when the mode is not
  portrait-only and the page is a double page, or keep-double-page-if-split is off and
  the page has part 1, or the page has part 0 and is equal to the last page of the list.
  So a plain single page gets a spacer item when it is the last page.
\<close>

theorem C8_spacer_items:
  "(Images o' \<noteq> [] \<longrightarrow>
      getManifest K o' =
        Inr (fixedItems @ titleItems o' @ imageTags K o' @ pageTags K o' @
             map (\<lambda>img. item (SpaceKey K img) (SpacePath K img) ''application/xhtml+xml'')
               (spacePages o'))) \<and>
   (img \<in> set (spacePages o')) =
     (img \<in> set (Images o') \<and> \<not> View_PortraitOnly (ImageOptions o') \<and>
      (DoublePage img \<or>
       (\<not> KeepDoublePageIfSplit (ImageOptions o') \<and> Part img = 1) \<or>
       (Part img = 0 \<and> EPUBImage_eq img (last (Images o')))))"
  by (auto simp add: getManifest_def spaceTags_def spacePages_def withSpace_def)

theorem C8_spacer_items_witness:
  "map idPart (Images demoBook) = [(1, 0), (2, 0), (3, 1), (3, 2)] \<and>
   map DoublePage (Images demoBook) = [False, True, False, False] \<and>
   map idPart (spacePages demoBook) = [(2, 0), (3, 1)] \<and>
   map (attr ''id'') (projr (getManifest demoKeys demoBook)) =
     [Some ''toc'', Some ''css'', Some ''page_cover'', Some ''img_cover'',
      Some ''img_a'', Some ''img_b'', Some ''img_c'', Some ''img_d'',
      Some ''page_a'', Some ''page_b'', Some ''page_c'', Some ''page_d'',
      Some ''space_b'', Some ''space_c'']"
proof -
  have pages: "map idPart (Images demoBook) = [(1, 0), (2, 0), (3, 1), (3, 2)] \<and>
      map DoublePage (Images demoBook) = [False, True, False, False] \<and>
      map idPart (spacePages demoBook) = [(2, 0), (3, 1)]"
    by code_simp
  have ne: "Images demoBook \<noteq> []"
    by code_simp
  have ids: "map (attr ''id'')
      (fixedItems @ titleItems demoBook @ imageTags demoKeys demoBook @
       pageTags demoKeys demoBook @
       map (\<lambda>img. item (SpaceKey demoKeys img) (SpacePath demoKeys img)
              ''application/xhtml+xml'') (spacePages demoBook)) =
     [Some ''toc'', Some ''css'', Some ''page_cover'', Some ''img_cover'',
      Some ''img_a'', Some ''img_b'', Some ''img_c'', Some ''img_d'',
      Some ''page_a'', Some ''page_b'', Some ''page_c'', Some ''page_d'',
      Some ''space_b'', Some ''space_c'']"
    by code_simp
  have "getManifest demoKeys demoBook =
      Inr (fixedItems @ titleItems demoBook @ imageTags demoKeys demoBook @
           pageTags demoKeys demoBook @
           map (\<lambda>img. item (SpaceKey demoKeys img) (SpacePath demoKeys img)
                  ''application/xhtml+xml'') (spacePages demoBook))"
    using C8_spacer_items [of demoBook demoKeys] ne by blast
  with pages ids show ?thesis
    by (simp del: map_append)
qed

text \<open>
  The claim as written fails on \<open>demoManga\<close>, five plain single pages: the last one
  gets a spacer item.
\<close>

theorem C8_counterexample:
  "\<not> View_PortraitOnly (ImageOptions demoManga) \<and>
   map DoublePage (Images demoManga) = [False, False, False, False, False] \<and>
   map Part (Images demoManga) = [0, 0, 0, 0, 0] \<and>
   map idPart (spacePages demoManga) = [(5, 0)] \<and>
   map (attr ''id'') (projr (getManifest demoKeys demoManga)) =
     [Some ''toc'', Some ''css'', Some ''page_cover'', Some ''img_cover'',
      Some ''img_a'', Some ''img_b'', Some ''img_c'', Some ''img_d'', Some ''img_e'',
      Some ''page_a'', Some ''page_b'', Some ''page_c'', Some ''page_d'', Some ''page_e'',
      Some ''space_e'']"
  by code_simp

section \<open>Properties of the grey scale\<close>

lemma f32_examples:
  "f32 (f32 (f32 (0 + 0) + 255) / 3) = 85"
  "f32 (f32 (f32 (0 + 0) + 1) / 3) = f32 (1 / 3)"
  "\<bar>255 * f32 (1 / 3) - 85\<bar> < 1 / 2"
  "f32 (2126 / 10000) + f32 (7152 / 10000) + f32 (722 / 10000) = 1"
  "f32 (f32 (f32 (f32 (2126 / 10000) * 1) + f32 (f32 (7152 / 10000) * 1)) +
        f32 (f32 (722 / 10000) * 1)) = 1"
  "f32 (f32 (f32 (f32 (2126 / 10000) * 255) + f32 (f32 (7152 / 10000) * 255)) +
        f32 (f32 (722 / 10000) * 255)) = 255"
  by code_simp+

text \<open>
  C9. With grey scale on, mode 1 adds the colour function that sets the three channels
  to the mean \<open>(r + g + b) / 3\<close>, computed in single precision, and keeps alpha: the pixel
  \<open>(0, 0, 255)\<close> becomes 85 (on the scale from 0 to 1, \<open>(0, 0, 1)\<close> becomes the
  \<^verbatim>\<open>float32\<close> nearest to one third, which is 85 on the scale of 255). Mode 2 adds the
  function that sets them to \<open>0.2126 r + 0.7152 g + 0.0722 b\<close>; the three weights sum to 1,
  as decimals and as \<^verbatim>\<open>float32\<close> constants, and a white pixel stays white, on either
  scale.
\<close>

theorem C9_grayscale_modes:
  "(GrayScale (Image' e) \<and> GrayScaleMode (Image' e) = 1 \<longrightarrow>
      gift_ColorFunc Average \<in> set (toneChain e d)) \<and>
   (GrayScale (Image' e) \<and> GrayScaleMode (Image' e) = 2 \<longrightarrow>
      gift_ColorFunc Luminance \<in> set (toneChain e d)) \<and>
   colorFn Average (r, g, b, a) =
     (f32 (f32 (f32 (r + g) + b) / 3), f32 (f32 (f32 (r + g) + b) / 3),
      f32 (f32 (f32 (r + g) + b) / 3), a) \<and>
   colorFn Average (0, 0, 255, a) = (85, 85, 85, a) \<and>
   colorFn Average (0, 0, 1, a) = (f32 (1 / 3), f32 (1 / 3), f32 (1 / 3), a) \<and>
   \<bar>255 * f32 (1 / 3) - 85\<bar> < 1 / 2 \<and>
   fst (colorFn Luminance (r, g, b, a)) =
     f32 (f32 (f32 (f32 (2126 / 10000) * r) + f32 (f32 (7152 / 10000) * g)) +
          f32 (f32 (722 / 10000) * b)) \<and>
   (2126 / 10000 + 7152 / 10000 + 722 / 10000 = (1::rat)) \<and>
   f32 (2126 / 10000) + f32 (7152 / 10000) + f32 (722 / 10000) = 1 \<and>
   colorFn Luminance (1, 1, 1, a) = (1, 1, 1, a) \<and>
   colorFn Luminance (255, 255, 255, a) = (255, 255, 255, a)"
proof (intro conjI)
  show "GrayScale (Image' e) \<and> GrayScaleMode (Image' e) = 1 \<longrightarrow>
      gift_ColorFunc Average \<in> set (toneChain e d)"
    by (simp add: toneChain_def grayScaleFilter_def)
  show "GrayScale (Image' e) \<and> GrayScaleMode (Image' e) = 2 \<longrightarrow>
      gift_ColorFunc Luminance \<in> set (toneChain e d)"
    by (simp add: toneChain_def grayScaleFilter_def)
  show "colorFn Average (r, g, b, a) =
     (f32 (f32 (f32 (r + g) + b) / 3), f32 (f32 (f32 (r + g) + b) / 3),
      f32 (f32 (f32 (r + g) + b) / 3), a)"
    by (simp add: Let_def)
  show "colorFn Average (0, 0, 255, a) = (85, 85, 85, a)"
    unfolding colorFn.simps Let_def f32_examples ..
  show "colorFn Average (0, 0, 1, a) = (f32 (1 / 3), f32 (1 / 3), f32 (1 / 3), a)"
    unfolding colorFn.simps Let_def f32_examples ..
  show "\<bar>255 * f32 (1 / 3) - 85\<bar> < 1 / 2"
    by (rule f32_examples)
  show "fst (colorFn Luminance (r, g, b, a)) =
     f32 (f32 (f32 (f32 (2126 / 10000) * r) + f32 (f32 (7152 / 10000) * g)) +
          f32 (f32 (722 / 10000) * b))"
    by (simp add: Let_def)
  show "2126 / 10000 + 7152 / 10000 + 722 / 10000 = (1::rat)"
    by simp
  show "f32 (2126 / 10000) + f32 (7152 / 10000) + f32 (722 / 10000) = 1"
    by (rule f32_examples)
  show "colorFn Luminance (1, 1, 1, a) = (1, 1, 1, a)"
    unfolding colorFn.simps Let_def f32_examples ..
  show "colorFn Luminance (255, 255, 255, a) = (255, 255, 255, a)"
    unfolding colorFn.simps Let_def f32_examples ..
qed

theorem C9_grayscale_modes_witness:
  "colorFn Average (0, 0, 255, 255) = (85, 85, 85, 255) \<and>
   colorFn Luminance (1, 1, 1, 1) = (1, 1, 1, 1) \<and>
   gift_ColorFunc Average \<in>
     set (toneChain (demoOptions\<lparr>Image' := demoImage\<lparr>GrayScale := True, GrayScaleMode := 1\<rparr>\<rparr>)
            False) \<and>
   gift_ColorFunc Luminance \<in>
     set (toneChain (demoOptions\<lparr>Image' := demoImage\<lparr>GrayScale := True, GrayScaleMode := 2\<rparr>\<rparr>)
            False)"
  using C9_grayscale_modes
      [of "demoOptions\<lparr>Image' := demoImage\<lparr>GrayScale := True, GrayScaleMode := 1\<rparr>\<rparr>"
          False 0 0 0 255]
    C9_grayscale_modes
      [of "demoOptions\<lparr>Image' := demoImage\<lparr>GrayScale := True, GrayScaleMode := 2\<rparr>\<rparr>"
          False 0 0 0 1]
  by (simp add: demoOptions_def demoImage_def)

end
